theory Spec2Isabelle
  imports Main "HOL-Library.Word" "HOL-Library.Sublist"
begin

section \<open>Data model\<close>

text \<open>
  The marker model of \<^verbatim>\<open>models.Marker\<close> as the pipeline reads it: timestamps and the
  duration are Go \<^verbatim>\<open>int64\<close> values, so subtraction wraps modulo \<open>2 ^ 64\<close>; an
  \<^verbatim>\<open>ObjectID\<close> is twelve bytes; Go strings are byte sequences.
\<close>

type_synonym int64 = "64 word"
type_synonym byte = "8 word"
type_synonym ObjectID = "byte list"

definition NilObjectID :: ObjectID where
  "NilObjectID = replicate 12 0"

record Tag =
  Name_Tag :: string

record Event =
  Name_Event :: string
  StartTimestamp_Event :: int64
  EndTimestamp_Event :: int64

record Category =
  Name_Category :: string

record Marker =
  Id_Marker :: ObjectID
  Name :: string
  StartTimestamp :: int64
  EndTimestamp :: int64
  Duration :: int64
  OrganisationId :: string
  DeviceId :: string
  GroupId :: string
  Tags :: "Tag list"
  Events :: "Event list"
  Categories :: "Category list"

text \<open>The zero value \<^verbatim>\<open>models.Marker{}\<close>.\<close>

definition zeroMarker :: Marker where
  "zeroMarker = \<lparr> Id_Marker = NilObjectID, Name = [], StartTimestamp = 0, EndTimestamp = 0,
     Duration = 0, OrganisationId = [], DeviceId = [], GroupId = [],
     Tags = [], Events = [], Categories = [] \<rparr>"

text \<open>
  Go errors: \<^verbatim>\<open>errors.New(msg)\<close>, an error handed back by the MongoDB driver, the parse
  error of \<^verbatim>\<open>primitive.ObjectIDFromHex\<close>, and \<^verbatim>\<open>fmt.Errorf(msg + ": %w", err)\<close>, which
  wraps its cause.
\<close>

datatype error =
    New string
  | Driver string
  | InvalidHex
  | Errorf string error

text \<open>
  BSON values as the pipeline builds them. A \<^verbatim>\<open>bson.M\<close> is a Go map literal with
  distinct keys, kept here as an association list in the order the source writes the keys.
  \<open>Null\<close> is what the driver writes for a nil slice.
\<close>

datatype bson =
    Null
  | String string
  | Int64 int64
  | ObjectId ObjectID
  | Strings "string list"
  | M "(string \<times> bson) list"

record UpdateOneModel =
  Filter :: bson
  Update :: bson
  Upsert :: "bool option"

text \<open>The writes the pipeline issues against the store, each with its collection.\<close>

datatype op =
    OpInsertOne string Marker
  | OpBulkWrite string "UpdateOneModel list"
  | OpInsertMany string "bson list"
  | OpUpdateOne string bson bson

fun collectionOf :: "op \<Rightarrow> string" where
  "collectionOf (OpInsertOne c d) = c"
| "collectionOf (OpBulkWrite c us) = c"
| "collectionOf (OpInsertMany c ds) = c"
| "collectionOf (OpUpdateOne c f u) = c"

text \<open>\<^verbatim>\<open>res.InsertedID\<close> is an \<^verbatim>\<open>interface{}\<close>: nil, some other type, or an ObjectID.\<close>

datatype InsertedID = IdNil | IdOther | IdObject ObjectID

text \<open>
  The collaborators of a call: the identity generator, the clock, and the store. The
  store is any function of the writes issued so far and the write at hand; it answers
  with an error or with the part of the driver's result the code can read
  (\<^verbatim>\<open>InsertedID\<close> for an insert, the matched count for an update).
\<close>

record Env =
  NewObjectID :: ObjectID
  Now :: int64
  InsertOne :: "op list \<Rightarrow> string \<Rightarrow> Marker \<Rightarrow> error + InsertedID"
  BulkWrite :: "op list \<Rightarrow> string \<Rightarrow> UpdateOneModel list \<Rightarrow> error option"
  InsertMany :: "op list \<Rightarrow> string \<Rightarrow> bson list \<Rightarrow> error option"
  UpdateOne :: "op list \<Rightarrow> string \<Rightarrow> bson \<Rightarrow> bson \<Rightarrow> error + nat"

section \<open>Collections\<close>

definition MARKERS_COLLECTION :: string where
  "MARKERS_COLLECTION = ''markers''"

definition MARKER_OPTIONS_COLLECTION :: string where
  "MARKER_OPTIONS_COLLECTION = ''marker_options''"

definition MARKER_OPTION_RANGES_COLLECTION :: string where
  "MARKER_OPTION_RANGES_COLLECTION = ''marker_option_ranges''"

definition MARKER_TAG_OPTIONS_COLLECTION :: string where
  "MARKER_TAG_OPTIONS_COLLECTION = ''marker_tag_options''"

definition MARKER_TAG_OPTION_RANGES_COLLECTION :: string where
  "MARKER_TAG_OPTION_RANGES_COLLECTION = ''marker_tag_option_ranges''"

definition MARKER_EVENT_OPTIONS_COLLECTION :: string where
  "MARKER_EVENT_OPTIONS_COLLECTION = ''marker_event_options''"

definition MARKER_EVENT_OPTION_RANGES_COLLECTION :: string where
  "MARKER_EVENT_OPTION_RANGES_COLLECTION = ''marker_event_option_ranges''"

definition MARKER_CATEGORY_OPTIONS_COLLECTION :: string where
  "MARKER_CATEGORY_OPTIONS_COLLECTION = ''marker_category_options''"

definition MEDIA_COLLECTION :: string where
  "MEDIA_COLLECTION = ''media''"

section \<open>Parsing a media identifier\<close>

text \<open>
  \<^verbatim>\<open>primitive.ObjectIDFromHex\<close> of the MongoDB driver: the string must be 24 bytes long
  and every byte a hexadecimal digit (either case); two digits make one byte.
\<close>

definition fromHexChar :: "char \<Rightarrow> nat option" where
  "fromHexChar c =
     (let n = (of_char c :: nat) in
      if 48 \<le> n \<and> n \<le> 57 then Some (n - 48)
      else if 97 \<le> n \<and> n \<le> 102 then Some (n - 87)
      else if 65 \<le> n \<and> n \<le> 70 then Some (n - 55)
      else None)"

fun hexDecode :: "string \<Rightarrow> byte list option" where
  "hexDecode [] = Some []"
| "hexDecode [a] = None"
| "hexDecode (a # b # rest) =
     (case fromHexChar a of
        None \<Rightarrow> None
      | Some hi \<Rightarrow>
          (case fromHexChar b of
             None \<Rightarrow> None
           | Some lo \<Rightarrow>
               (case hexDecode rest of
                  None \<Rightarrow> None
                | Some bs \<Rightarrow> Some (of_nat (16 * hi + lo) # bs))))"

definition ObjectIDFromHex :: "string \<Rightarrow> error + ObjectID" where
  "ObjectIDFromHex s =
     (if length s \<noteq> 24 then Inl InvalidHex
      else case hexDecode s of None \<Rightarrow> Inl InvalidHex | Some oid \<Rightarrow> Inr oid)"

section \<open>Documents built by \<^verbatim>\<open>AddMarkerToMongodb\<close>\<close>

text \<open>The upsert model shared by the tag, event and category catalogs.\<close>

definition optionUpsert :: "string \<Rightarrow> string \<Rightarrow> int64 \<Rightarrow> UpdateOneModel" where
  "optionUpsert v org now =
     \<lparr> Filter = M [(''value'', String v), (''organisationId'', String org)],
       Update = M [
         (''$setOnInsert'', M [(''value'', String v), (''text'', String v),
                               (''organisationId'', String org), (''createdAt'', Int64 now)]),
         (''$set'', M [(''updatedAt'', Int64 now)])],
       Upsert = Some True \<rparr>"

text \<open>
  A \<^verbatim>\<open>[]string\<close> declared with \<^verbatim>\<open>var\<close> and filled by \<^verbatim>\<open>append\<close> only: it is
  the nil slice as long as nothing was appended, and the driver encodes a nil slice as
  BSON null, a non-nil one as an array.
\<close>

definition StringSlice :: "string list \<Rightarrow> bson" where
  "StringSlice xs = (if xs = [] then Null else Strings xs)"

text \<open>The upsert model of the marker-name catalog: it also adds to the category set.\<close>

definition markerOptionUpsert :: "string \<Rightarrow> string \<Rightarrow> int64 \<Rightarrow> string list \<Rightarrow> UpdateOneModel" where
  "markerOptionUpsert v org now categoryNamesList =
     \<lparr> Filter = M [(''value'', String v), (''organisationId'', String org)],
       Update = M [
         (''$setOnInsert'', M [(''value'', String v), (''text'', String v),
                               (''organisationId'', String org), (''createdAt'', Int64 now)]),
         (''$set'', M [(''updatedAt'', Int64 now)]),
         (''$addToSet'', M [(''categories'', M [(''$each'', StringSlice categoryNamesList)])])],
       Upsert = Some True \<rparr>"

text \<open>The range document of a marker name or a tag.\<close>

definition rangeDoc ::
  "string \<Rightarrow> string \<Rightarrow> int64 \<Rightarrow> int64 \<Rightarrow> string \<Rightarrow> string \<Rightarrow> int64 \<Rightarrow> bson" where
  "rangeDoc v org start end dev grp now =
     M [(''value'', String v), (''text'', String v), (''organisationId'', String org),
        (''start'', Int64 start), (''end'', Int64 end), (''deviceId'', String dev),
        (''groupId'', String grp), (''createdAt'', Int64 now)]"

text \<open>The range document of an event.\<close>

definition eventRangeDoc ::
  "string \<Rightarrow> string \<Rightarrow> int64 \<Rightarrow> int64 \<Rightarrow> string \<Rightarrow> string \<Rightarrow> int64 \<Rightarrow> bson" where
  "eventRangeDoc v org start end dev grp now =
     M [(''value'', String v), (''text'', String v), (''organisationId'', String org),
        (''start'', Int64 start), (''end'', Int64 end), (''deviceId'', String dev),
        (''groupId'', String grp), (''createdAt'', Int64 now), (''updatedAt'', Int64 now)]"

text \<open>The names of the non-empty categories, in order (the inner loop of the marker block).\<close>

fun categoryNames :: "Category list \<Rightarrow> string list" where
  "categoryNames [] = []"
| "categoryNames (cat # rest) =
     (if Name_Category cat \<noteq> [] then Name_Category cat # categoryNames rest
      else categoryNames rest)"

text \<open>
  The marker block: \<^verbatim>\<open>nameSet\<close> is empty when it runs, so a non-empty name always gives
  one upsert and one range document.
\<close>

definition markerBlock :: "Marker \<Rightarrow> int64 \<Rightarrow> string set \<times> UpdateOneModel list \<times> bson list" where
  "markerBlock marker now =
     (if Name marker \<noteq> [] then
        (let (nameSet, markerOptUpserts) =
               (if Name marker \<notin> {} then
                  (insert (Name marker) {},
                   [markerOptionUpsert (Name marker) (OrganisationId marker) now
                      (categoryNames (Categories marker))])
                else ({}, []))
         in (nameSet, markerOptUpserts,
             [rangeDoc (Name marker) (OrganisationId marker) (StartTimestamp marker)
                (EndTimestamp marker) (DeviceId marker) (GroupId marker) now]))
      else ({}, [], []))"

text \<open>
  The loop over the tags, with its three accumulators: the set of names seen, the
  upserts and the range documents.
\<close>

fun tagsLoop ::
  "Marker \<Rightarrow> int64 \<Rightarrow> Tag list \<Rightarrow> string set \<times> UpdateOneModel list \<times> bson list
     \<Rightarrow> string set \<times> UpdateOneModel list \<times> bson list" where
  "tagsLoop marker now [] acc = acc"
| "tagsLoop marker now (tag # rest) (tagSet, tagOptUpserts, tagRangeDocs) =
     (if Name_Tag tag = [] then tagsLoop marker now rest (tagSet, tagOptUpserts, tagRangeDocs)
      else
        (let (tagSet', tagOptUpserts') =
               (if Name_Tag tag \<notin> tagSet then
                  (insert (Name_Tag tag) tagSet,
                   tagOptUpserts @ [optionUpsert (Name_Tag tag) (OrganisationId marker) now])
                else (tagSet, tagOptUpserts))
         in tagsLoop marker now rest
              (tagSet', tagOptUpserts',
               tagRangeDocs @
                 [rangeDoc (Name_Tag tag) (OrganisationId marker) (StartTimestamp marker)
                    (EndTimestamp marker) (DeviceId marker) (GroupId marker) now])))"

text \<open>The loop over the events; a range document carries the event's own start and end.\<close>

fun eventsLoop ::
  "Marker \<Rightarrow> int64 \<Rightarrow> Event list \<Rightarrow> string set \<times> UpdateOneModel list \<times> bson list
     \<Rightarrow> string set \<times> UpdateOneModel list \<times> bson list" where
  "eventsLoop marker now [] acc = acc"
| "eventsLoop marker now (event # rest) (eventSet, eventOptUpserts, eventRangeDocs) =
     (if Name_Event event = [] then
        eventsLoop marker now rest (eventSet, eventOptUpserts, eventRangeDocs)
      else
        (let (eventSet', eventOptUpserts') =
               (if Name_Event event \<notin> eventSet then
                  (insert (Name_Event event) eventSet,
                   eventOptUpserts @
                     [optionUpsert (Name_Event event) (OrganisationId marker) now])
                else (eventSet, eventOptUpserts))
         in eventsLoop marker now rest
              (eventSet', eventOptUpserts',
               eventRangeDocs @
                 [eventRangeDoc (Name_Event event) (OrganisationId marker)
                    (StartTimestamp_Event event) (EndTimestamp_Event event)
                    (DeviceId marker) (GroupId marker) now])))"

text \<open>The loop over the categories: upserts only.\<close>

fun categoriesLoop ::
  "Marker \<Rightarrow> int64 \<Rightarrow> Category list \<Rightarrow> string set \<times> UpdateOneModel list
     \<Rightarrow> string set \<times> UpdateOneModel list" where
  "categoriesLoop marker now [] acc = acc"
| "categoriesLoop marker now (category # rest) (categorySet, categoryOptUpserts) =
     (if Name_Category category = [] then
        categoriesLoop marker now rest (categorySet, categoryOptUpserts)
      else if Name_Category category \<notin> categorySet then
        categoriesLoop marker now rest
          (insert (Name_Category category) categorySet,
           categoryOptUpserts @
             [optionUpsert (Name_Category category) (OrganisationId marker) now])
      else categoriesLoop marker now rest (categorySet, categoryOptUpserts))"

text \<open>The batches as \<^verbatim>\<open>AddMarkerToMongodb\<close> holds them when the writes begin.\<close>

definition markerOptUpserts :: "Marker \<Rightarrow> int64 \<Rightarrow> UpdateOneModel list" where
  "markerOptUpserts marker now = fst (snd (markerBlock marker now))"

definition markerRangeDocs :: "Marker \<Rightarrow> int64 \<Rightarrow> bson list" where
  "markerRangeDocs marker now = snd (snd (markerBlock marker now))"

definition tagOptUpserts :: "Marker \<Rightarrow> int64 \<Rightarrow> UpdateOneModel list" where
  "tagOptUpserts marker now = fst (snd (tagsLoop marker now (Tags marker) ({}, [], [])))"

definition tagRangeDocs :: "Marker \<Rightarrow> int64 \<Rightarrow> bson list" where
  "tagRangeDocs marker now = snd (snd (tagsLoop marker now (Tags marker) ({}, [], [])))"

definition eventOptUpserts :: "Marker \<Rightarrow> int64 \<Rightarrow> UpdateOneModel list" where
  "eventOptUpserts marker now = fst (snd (eventsLoop marker now (Events marker) ({}, [], [])))"

definition eventRangeDocs :: "Marker \<Rightarrow> int64 \<Rightarrow> bson list" where
  "eventRangeDocs marker now = snd (snd (eventsLoop marker now (Events marker) ({}, [], [])))"

definition categoryOptUpserts :: "Marker \<Rightarrow> int64 \<Rightarrow> UpdateOneModel list" where
  "categoryOptUpserts marker now =
     snd (categoriesLoop marker now (Categories marker) ({}, []))"

section \<open>The writes\<close>

text \<open>
  One write stage: skipped when its batch is empty; otherwise the write is issued and a
  failure is wrapped with the stage's message.
\<close>

definition bulkWriteStage ::
  "Env \<Rightarrow> string \<Rightarrow> string \<Rightarrow> UpdateOneModel list \<Rightarrow> op list \<Rightarrow> error option \<times> op list" where
  "bulkWriteStage env col msg upserts tr =
     (if length upserts > 0 then
        (case BulkWrite env tr col upserts of
           Some err \<Rightarrow> (Some (Errorf msg err), tr @ [OpBulkWrite col upserts])
         | None \<Rightarrow> (None, tr @ [OpBulkWrite col upserts]))
      else (None, tr))"

definition insertManyStage ::
  "Env \<Rightarrow> string \<Rightarrow> string \<Rightarrow> bson list \<Rightarrow> op list \<Rightarrow> error option \<times> op list" where
  "insertManyStage env col msg docs tr =
     (if length docs > 0 then
        (case InsertMany env tr col docs of
           Some err \<Rightarrow> (Some (Errorf msg err), tr @ [OpInsertMany col docs])
         | None \<Rightarrow> (None, tr @ [OpInsertMany col docs]))
      else (None, tr))"

text \<open>Stages run in order; the first error returns at once.\<close>

fun runStages ::
  "(op list \<Rightarrow> error option \<times> op list) list \<Rightarrow> op list \<Rightarrow> error option \<times> op list" where
  "runStages [] tr = (None, tr)"
| "runStages (stage # rest) tr =
     (case stage tr of
        (Some err, tr') \<Rightarrow> (Some err, tr')
      | (None, tr') \<Rightarrow> runStages rest tr')"

text \<open>The seven catalog and range stages, in the order of the source.\<close>

definition optionStages :: "Env \<Rightarrow> Marker \<Rightarrow> (op list \<Rightarrow> error option \<times> op list) list" where
  "optionStages env marker =
     (let now = Now env in
      [bulkWriteStage env MARKER_OPTIONS_COLLECTION ''failed to upsert marker options''
         (markerOptUpserts marker now),
       insertManyStage env MARKER_OPTION_RANGES_COLLECTION ''failed to insert marker ranges''
         (markerRangeDocs marker now),
       bulkWriteStage env MARKER_TAG_OPTIONS_COLLECTION ''failed to upsert tag options''
         (tagOptUpserts marker now),
       insertManyStage env MARKER_TAG_OPTION_RANGES_COLLECTION ''failed to insert tag ranges''
         (tagRangeDocs marker now),
       bulkWriteStage env MARKER_EVENT_OPTIONS_COLLECTION ''failed to upsert event options''
         (eventOptUpserts marker now),
       insertManyStage env MARKER_EVENT_OPTION_RANGES_COLLECTION ''failed to insert event ranges''
         (eventRangeDocs marker now),
       bulkWriteStage env MARKER_CATEGORY_OPTIONS_COLLECTION ''failed to upsert category options''
         (categoryOptUpserts marker now)])"

section \<open>Media linking\<close>

fun tagNames :: "Tag list \<Rightarrow> string list" where
  "tagNames [] = []"
| "tagNames (tag # rest) =
     (if Name_Tag tag \<noteq> [] then Name_Tag tag # tagNames rest else tagNames rest)"

fun eventNames :: "Event list \<Rightarrow> string list" where
  "eventNames [] = []"
| "eventNames (event # rest) =
     (if Name_Event event \<noteq> [] then Name_Event event # eventNames rest else eventNames rest)"

definition markerNames :: "Marker \<Rightarrow> string list" where
  "markerNames marker = (if Name marker \<noteq> [] then [Name marker] else [])"

text \<open>The \<^verbatim>\<open>$addToSet\<close> document: one entry per non-empty name list.\<close>

definition updateDoc :: "Marker \<Rightarrow> (string \<times> bson) list" where
  "updateDoc marker =
     (if length (markerNames marker) > 0
      then [(''markerNames'', M [(''$each'', Strings (markerNames marker))])] else []) @
     (if length (tagNames (Tags marker)) > 0
      then [(''tagNames'', M [(''$each'', Strings (tagNames (Tags marker)))])] else []) @
     (if length (eventNames (Events marker)) > 0
      then [(''eventNames'', M [(''$each'', Strings (eventNames (Events marker)))])] else [])"

definition mediaFilter :: "ObjectID \<Rightarrow> Marker \<Rightarrow> bson" where
  "mediaFilter mediaObjectId marker =
     M [(''_id'', ObjectId mediaObjectId),
        (''startTimestamp'', M [(''$lte'', Int64 (StartTimestamp marker))]),
        (''endTimestamp'', M [(''$gte'', Int64 (StartTimestamp marker))])]"

text \<open>The body of the media loop once the identifier has parsed.\<close>

definition linkOne :: "Env \<Rightarrow> Marker \<Rightarrow> ObjectID \<Rightarrow> op list \<Rightarrow> error option \<times> op list" where
  "linkOne env marker mediaObjectId tr =
     (if length (updateDoc marker) > 0 then
        (let filter = mediaFilter mediaObjectId marker;
             update = M [(''$addToSet'', M (updateDoc marker))]
         in case UpdateOne env tr MEDIA_COLLECTION filter update of
              Inl err \<Rightarrow> (Some (Errorf ''failed to update media with marker data'' err),
                          tr @ [OpUpdateOne MEDIA_COLLECTION filter update])
            | Inr matched \<Rightarrow> (None, tr @ [OpUpdateOne MEDIA_COLLECTION filter update]))
      else (None, tr))"

text \<open>The loop over the media identifiers.\<close>

fun linkMedia :: "Env \<Rightarrow> Marker \<Rightarrow> string list \<Rightarrow> op list \<Rightarrow> error option \<times> op list" where
  "linkMedia env marker [] tr = (None, tr)"
| "linkMedia env marker (mediaId # rest) tr =
     (if mediaId = [] then linkMedia env marker rest tr
      else
        (case ObjectIDFromHex mediaId of
           Inl err \<Rightarrow> (Some (Errorf ''invalid mediaId format'' err), tr)
         | Inr mediaObjectId \<Rightarrow>
             (case linkOne env marker mediaObjectId tr of
                (Some err, tr') \<Rightarrow> (Some err, tr')
              | (None, tr') \<Rightarrow> linkMedia env marker rest tr')))"

section \<open>\<^verbatim>\<open>AddMarkerToMongodb\<close> and \<^verbatim>\<open>Create\<close>\<close>

text \<open>
  The result is the Go pair (marker, error), \<open>None\<close> for a nil error, together with the
  writes issued, in order.
\<close>

definition AddMarkerToMongodb ::
  "Env \<Rightarrow> Marker \<Rightarrow> string list \<Rightarrow> (Marker \<times> error option) \<times> op list" where
  "AddMarkerToMongodb env marker0 mediaIds =
     (let marker1 = marker0\<lparr>Id_Marker := NewObjectID env\<rparr>;
          tr1 = [OpInsertOne MARKERS_COLLECTION marker1]
      in case InsertOne env [] MARKERS_COLLECTION marker1 of
           Inl err \<Rightarrow> ((zeroMarker, Some err), tr1)
         | Inr IdNil \<Rightarrow> ((zeroMarker, Some (New ''Inserted ID is nil'')), tr1)
         | Inr IdOther \<Rightarrow>
             ((zeroMarker, Some (New ''Inserted ID is not of type primitive.ObjectID'')), tr1)
         | Inr (IdObject oid) \<Rightarrow>
             (let marker = marker1\<lparr>Id_Marker := oid\<rparr>
              in case runStages (optionStages env marker) tr1 of
                   (Some err, tr) \<Rightarrow> ((marker, Some err), tr)
                 | (None, tr) \<Rightarrow>
                     (case linkMedia env marker mediaIds tr of
                        (err, tr') \<Rightarrow> ((marker, err), tr'))))"

text \<open>\<^verbatim>\<open>Create\<close> takes the marker only and hands no media identifier on.\<close>

definition Create :: "Env \<Rightarrow> Marker \<Rightarrow> (Marker \<times> error option) \<times> op list" where
  "Create env marker =
     (if Name marker = [] then ((zeroMarker, Some (New ''marker name is required'')), [])
      else
        (let marker' = marker\<lparr>Duration := EndTimestamp marker - StartTimestamp marker\<rparr>
         in case AddMarkerToMongodb env marker' [] of
              ((insertedMarker, Some err), tr) \<Rightarrow> ((zeroMarker, Some err), tr)
            | ((insertedMarker, None), tr) \<Rightarrow> ((insertedMarker, None), tr)))"

section \<open>Notions used to state the properties\<close>

text \<open>
  The distinct non-empty names of a list, each at its first occurrence; \<open>seen\<close> holds the
  names already met.
\<close>

fun freshNames :: "string set \<Rightarrow> string list \<Rightarrow> string list" where
  "freshNames seen [] = []"
| "freshNames seen (n # ns) =
     (if n = [] \<or> n \<in> seen then freshNames seen ns else n # freshNames (insert n seen) ns)"

definition distinctNames :: "string list \<Rightarrow> string list" where
  "distinctNames ns = freshNames {} ns"

text \<open>The write a stage issues for its batch: none for an empty batch.\<close>

definition bulkOps :: "string \<Rightarrow> UpdateOneModel list \<Rightarrow> op list" where
  "bulkOps col upserts = (if upserts = [] then [] else [OpBulkWrite col upserts])"

definition insertOps :: "string \<Rightarrow> bson list \<Rightarrow> op list" where
  "insertOps col docs = (if docs = [] then [] else [OpInsertMany col docs])"

text \<open>The catalog and range writes of a submission, stage by stage.\<close>

definition stageOps :: "Marker \<Rightarrow> int64 \<Rightarrow> op list list" where
  "stageOps marker now =
     [bulkOps MARKER_OPTIONS_COLLECTION (markerOptUpserts marker now),
      insertOps MARKER_OPTION_RANGES_COLLECTION (markerRangeDocs marker now),
      bulkOps MARKER_TAG_OPTIONS_COLLECTION (tagOptUpserts marker now),
      insertOps MARKER_TAG_OPTION_RANGES_COLLECTION (tagRangeDocs marker now),
      bulkOps MARKER_EVENT_OPTIONS_COLLECTION (eventOptUpserts marker now),
      insertOps MARKER_EVENT_OPTION_RANGES_COLLECTION (eventRangeDocs marker now),
      bulkOps MARKER_CATEGORY_OPTIONS_COLLECTION (categoryOptUpserts marker now)]"

text \<open>The order in which the source writes to the collections.\<close>

definition stageCollections :: "string list" where
  "stageCollections =
     [MARKER_OPTIONS_COLLECTION, MARKER_OPTION_RANGES_COLLECTION,
      MARKER_TAG_OPTIONS_COLLECTION, MARKER_TAG_OPTION_RANGES_COLLECTION,
      MARKER_EVENT_OPTIONS_COLLECTION, MARKER_EVENT_OPTION_RANGES_COLLECTION,
      MARKER_CATEGORY_OPTIONS_COLLECTION]"

text \<open>The message with which a failed write to a collection is wrapped.\<close>

definition stageMessages :: "(string \<times> string) list" where
  "stageMessages =
     [(MARKER_OPTIONS_COLLECTION, ''failed to upsert marker options''),
      (MARKER_OPTION_RANGES_COLLECTION, ''failed to insert marker ranges''),
      (MARKER_TAG_OPTIONS_COLLECTION, ''failed to upsert tag options''),
      (MARKER_TAG_OPTION_RANGES_COLLECTION, ''failed to insert tag ranges''),
      (MARKER_EVENT_OPTIONS_COLLECTION, ''failed to upsert event options''),
      (MARKER_EVENT_OPTION_RANGES_COLLECTION, ''failed to insert event ranges''),
      (MARKER_CATEGORY_OPTIONS_COLLECTION, ''failed to upsert category options''),
      (MEDIA_COLLECTION, ''failed to update media with marker data'')]"

text \<open>
  A stage error names the write that failed: it wraps a cause under the message of the
  collection of the last write issued.
\<close>

definition namesFailedWrite :: "error \<Rightarrow> op list \<Rightarrow> bool" where
  "namesFailedWrite e tr =
     (tr \<noteq> [] \<and>
      (case e of
         Errorf msg cause \<Rightarrow> map_of stageMessages (collectionOf (last tr)) = Some msg
       | _ \<Rightarrow> False))"

definition isInvalidReference :: "error \<Rightarrow> bool" where
  "isInvalidReference e =
     (case e of Errorf msg cause \<Rightarrow> msg = ''invalid mediaId format'' | _ \<Rightarrow> False)"

text \<open>The write the media linker issues for one parsed identifier.\<close>

definition mediaOps :: "Marker \<Rightarrow> ObjectID \<Rightarrow> op list" where
  "mediaOps marker mediaObjectId =
     (if updateDoc marker = [] then []
      else [OpUpdateOne MEDIA_COLLECTION (mediaFilter mediaObjectId marker)
              (M [(''$addToSet'', M (updateDoc marker))])])"

text \<open>The value of an attribute of a document.\<close>

fun field :: "bson \<Rightarrow> string \<Rightarrow> bson option" where
  "field (M kvs) k = map_of kvs k"
| "field v k = None"

text \<open>The attribute names of a document.\<close>

fun keys :: "bson \<Rightarrow> string list" where
  "keys (M kvs) = map fst kvs"
| "keys v = []"

fun isBulkWrite :: "op \<Rightarrow> bool" where
  "isBulkWrite (OpBulkWrite c us) = True"
| "isBulkWrite other = False"

fun isInsertMany :: "op \<Rightarrow> bool" where
  "isInsertMany (OpInsertMany c ds) = True"
| "isInsertMany other = False"

fun isUpdateOne :: "op \<Rightarrow> bool" where
  "isUpdateOne (OpUpdateOne c f u) = True"
| "isUpdateOne other = False"

text \<open>
  The order as the specification words it: once a range write has been issued, no
  catalog write follows.
\<close>

fun catalogsBeforeRanges :: "op list \<Rightarrow> bool" where
  "catalogsBeforeRanges [] = True"
| "catalogsBeforeRanges (x # rest) =
     (if isInsertMany x then list_all (\<lambda>y. \<not> isBulkWrite y) rest \<and> catalogsBeforeRanges rest
      else catalogsBeforeRanges rest)"

text \<open>
  The store's reading of a media filter: a field set to a value asks for equality,
  \<^verbatim>\<open>$lte\<close> and \<^verbatim>\<open>$gte\<close> compare 64-bit integers as signed numbers.
\<close>

record Media =
  Id_Media :: ObjectID
  StartTimestamp_Media :: int64
  EndTimestamp_Media :: int64

definition mediaField :: "Media \<Rightarrow> string \<Rightarrow> bson option" where
  "mediaField d k =
     (if k = ''_id'' then Some (ObjectId (Id_Media d))
      else if k = ''startTimestamp'' then Some (Int64 (StartTimestamp_Media d))
      else if k = ''endTimestamp'' then Some (Int64 (EndTimestamp_Media d))
      else None)"

definition condHolds :: "bson \<Rightarrow> bson \<Rightarrow> bool" where
  "condHolds cond v =
     (case cond of
        M [(opr, Int64 bound)] \<Rightarrow>
          (case v of
             Int64 x \<Rightarrow>
               (if opr = ''$lte'' then sint x \<le> sint bound
                else if opr = ''$gte'' then sint bound \<le> sint x
                else False)
           | _ \<Rightarrow> False)
      | _ \<Rightarrow> v = cond)"

fun matchesAll :: "(string \<times> bson) list \<Rightarrow> Media \<Rightarrow> bool" where
  "matchesAll [] d = True"
| "matchesAll ((k, cond) # rest) d =
     ((case mediaField d k of None \<Rightarrow> False | Some v \<Rightarrow> condHolds cond v) \<and> matchesAll rest d)"

fun matchesFilter :: "bson \<Rightarrow> Media \<Rightarrow> bool" where
  "matchesFilter (M kvs) d = matchesAll kvs d"
| "matchesFilter v d = False"

text \<open>
  The answer of the store to a write, given the writes issued before it: \<open>None\<close> when
  the driver call returns a nil error, otherwise the error.
\<close>

fun storeError :: "Env \<Rightarrow> op list \<Rightarrow> op \<Rightarrow> error option" where
  "storeError env hist (OpInsertOne c d) =
     (case InsertOne env hist c d of Inl err \<Rightarrow> Some err | Inr i \<Rightarrow> None)"
| "storeError env hist (OpBulkWrite c us) = BulkWrite env hist c us"
| "storeError env hist (OpInsertMany c ds) = InsertMany env hist c ds"
| "storeError env hist (OpUpdateOne c f u) =
     (case UpdateOne env hist c f u of Inl err \<Rightarrow> Some err | Inr n \<Rightarrow> None)"

text \<open>The answers of the store to a sequence of writes issued after \<open>hist\<close>.\<close>

fun answers :: "Env \<Rightarrow> op list \<Rightarrow> op list \<Rightarrow> error option list" where
  "answers env hist [] = []"
| "answers env hist (x # xs) = storeError env hist x # answers env (hist @ [x]) xs"

text \<open>Every write of the sequence is answered without error.\<close>

definition accepted :: "Env \<Rightarrow> op list \<Rightarrow> op list \<Rightarrow> bool" where
  "accepted env hist ops = list_all (\<lambda>a. a = None) (answers env hist ops)"

text \<open>
  The last write of the sequence is the first one answered with an error, and \<open>e\<close>
  wraps that error under the message of the write's collection.
\<close>

definition failedAt :: "Env \<Rightarrow> op list \<Rightarrow> op list \<Rightarrow> error \<Rightarrow> bool" where
  "failedAt env hist ops e =
     (\<exists>pre x cause msg. ops = pre @ [x] \<and> accepted env hist pre \<and>
        storeError env (hist @ pre) x = Some cause \<and> e = Errorf msg cause \<and>
        map_of stageMessages (collectionOf x) = Some msg)"

text \<open>
  A stage with the writes \<open>ops\<close>: it issues them whatever the outcome, returns no
  error when the store accepts them, and otherwise an error for the write that failed.
\<close>

definition stageSem ::
  "Env \<Rightarrow> (op list \<Rightarrow> error option \<times> op list) \<Rightarrow> op list \<Rightarrow> bool" where
  "stageSem env stage ops =
     (\<forall>t. snd (stage t) = t @ ops \<and>
          (case fst (stage t) of
             None \<Rightarrow> accepted env t ops
           | Some e \<Rightarrow> failedAt env t ops e))"

text \<open>The media updates of a call whose identifiers all parse, in order.\<close>

definition mediaPlan :: "Marker \<Rightarrow> string list \<Rightarrow> op list" where
  "mediaPlan marker mediaIds =
     concat (map (\<lambda>mediaId.
                    if mediaId = [] then []
                    else (case ObjectIDFromHex mediaId of
                            Inl err \<Rightarrow> []
                          | Inr mediaObjectId \<Rightarrow> mediaOps marker mediaObjectId))
               mediaIds)"

section \<open>Concrete stores and markers\<close>

text \<open>A store on which every write succeeds; an update matches no document.\<close>

definition okEnv :: Env where
  "okEnv = \<lparr> NewObjectID = [1, 2, 3, 4, 5, 6, 7, 8, 9, 10, 11, 12], Now = 1700000000,
     InsertOne = (\<lambda>tr col doc. Inr (IdObject (Id_Marker doc))),
     BulkWrite = (\<lambda>tr col ups. None),
     InsertMany = (\<lambda>tr col docs. None),
     UpdateOne = (\<lambda>tr col f u. Inr 0) \<rparr>"

text \<open>A store on which every write to the collection \<open>bad\<close>, but the insert of the marker, fails.\<close>

definition failEnv :: "string \<Rightarrow> Env" where
  "failEnv bad = \<lparr> NewObjectID = [1, 2, 3, 4, 5, 6, 7, 8, 9, 10, 11, 12], Now = 1700000000,
     InsertOne = (\<lambda>tr col doc. Inr (IdObject (Id_Marker doc))),
     BulkWrite = (\<lambda>tr col ups. if col = bad then Some (Driver ''write failed'') else None),
     InsertMany = (\<lambda>tr col docs. if col = bad then Some (Driver ''write failed'') else None),
     UpdateOne = (\<lambda>tr col f u. if col = bad then Inl (Driver ''write failed'') else Inr 0) \<rparr>"

definition motion :: Marker where
  "motion = \<lparr> Id_Marker = NilObjectID, Name = ''Motion'', StartTimestamp = 100,
     EndTimestamp = 110, Duration = 0, OrganisationId = ''A'', DeviceId = ''cam'',
     GroupId = ''grp'', Tags = [], Events = [], Categories = [] \<rparr>"

definition alert :: Marker where
  "alert = \<lparr> Id_Marker = NilObjectID, Name = ''Alert'', StartTimestamp = 100,
     EndTimestamp = 110, Duration = 0, OrganisationId = ''A'', DeviceId = ''cam'',
     GroupId = ''grp'',
     Tags = [\<lparr>Name_Tag = ''high-priority''\<rparr>, \<lparr>Name_Tag = []\<rparr>, \<lparr>Name_Tag = ''high-priority''\<rparr>],
     Events = [\<lparr>Name_Event = ''door'', StartTimestamp_Event = 103, EndTimestamp_Event = 105\<rparr>],
     Categories = [\<lparr>Name_Category = ''security''\<rparr>, \<lparr>Name_Category = []\<rparr>,
                   \<lparr>Name_Category = ''security''\<rparr>] \<rparr>"

definition late :: Marker where
  "late = motion\<lparr>StartTimestamp := 110, EndTimestamp := 100\<rparr>"

definition wrapped :: Marker where
  "wrapped = motion\<lparr>StartTimestamp := - 1, EndTimestamp := 9223372036854775807\<rparr>"

text \<open>A well-formed media identifier, the bytes it denotes, and a malformed one.\<close>

definition goodMediaId :: string where
  "goodMediaId = ''64a1b2c3d4e5f6789012abcd''"

definition goodObjectId :: ObjectID where
  "goodObjectId = [100, 161, 178, 195, 212, 229, 246, 120, 144, 18, 171, 205]"

definition badMediaId :: string where
  "badMediaId = ''media-id-here''"

text \<open>A marker with no non-empty marker, tag or event name.\<close>

definition blank :: Marker where
  "blank = alert\<lparr>Name := [], Tags := [\<lparr>Name_Tag = []\<rparr>], Events := []\<rparr>"

section \<open>Evaluation rules\<close>

lemmas collection_defs =
  MARKERS_COLLECTION_def MARKER_OPTIONS_COLLECTION_def MARKER_OPTION_RANGES_COLLECTION_def
  MARKER_TAG_OPTIONS_COLLECTION_def MARKER_TAG_OPTION_RANGES_COLLECTION_def
  MARKER_EVENT_OPTIONS_COLLECTION_def MARKER_EVENT_OPTION_RANGES_COLLECTION_def
  MARKER_CATEGORY_OPTIONS_COLLECTION_def MEDIA_COLLECTION_def

section \<open>The loops in closed form\<close>

lemma set_freshNames: "set (freshNames seen ns) = {n \<in> set ns. n \<noteq> [] \<and> n \<notin> seen}"
  by (induction ns arbitrary: seen) auto

lemma distinct_freshNames: "distinct (freshNames seen ns)"
  by (induction ns arbitrary: seen) (auto simp: set_freshNames)

lemma tagsLoop_eq:
  "snd (tagsLoop marker now ts (seen, ups, docs)) =
     (ups @ map (\<lambda>v. optionUpsert v (OrganisationId marker) now) (freshNames seen (map Name_Tag ts)),
      docs @ map (\<lambda>t. rangeDoc (Name_Tag t) (OrganisationId marker) (StartTimestamp marker)
                    (EndTimestamp marker) (DeviceId marker) (GroupId marker) now)
               (filter (\<lambda>t. Name_Tag t \<noteq> []) ts))"
proof (induction ts arbitrary: seen ups docs)
  case Nil
  then show ?case by simp
next
  case (Cons t ts)
  show ?case
  proof (cases "Name_Tag t = []")
    case True
    then show ?thesis using Cons.IH by simp
  next
    case False
    then show ?thesis
      by (cases "Name_Tag t \<in> seen") (simp_all add: Cons.IH)
  qed
qed

lemma eventsLoop_eq:
  "snd (eventsLoop marker now es (seen, ups, docs)) =
     (ups @ map (\<lambda>v. optionUpsert v (OrganisationId marker) now) (freshNames seen (map Name_Event es)),
      docs @ map (\<lambda>e. eventRangeDoc (Name_Event e) (OrganisationId marker)
                    (StartTimestamp_Event e) (EndTimestamp_Event e)
                    (DeviceId marker) (GroupId marker) now)
               (filter (\<lambda>e. Name_Event e \<noteq> []) es))"
proof (induction es arbitrary: seen ups docs)
  case Nil
  then show ?case by simp
next
  case (Cons e es)
  show ?case
  proof (cases "Name_Event e = []")
    case True
    then show ?thesis using Cons.IH by simp
  next
    case False
    then show ?thesis
      by (cases "Name_Event e \<in> seen") (simp_all add: Cons.IH)
  qed
qed

lemma categoriesLoop_eq:
  "snd (categoriesLoop marker now cs (seen, ups)) =
      ups @ map (\<lambda>v. optionUpsert v (OrganisationId marker) now)
              (freshNames seen (map Name_Category cs))"
proof (induction cs arbitrary: seen ups)
  case Nil
  then show ?case by simp
next
  case (Cons c cs)
  show ?case
  proof (cases "Name_Category c = []")
    case True
    then show ?thesis using Cons.IH by simp
  next
    case False
    then show ?thesis
      by (cases "Name_Category c \<in> seen") (simp_all add: Cons.IH)
  qed
qed

lemma categoryNames_eq:
  "categoryNames cs = filter (\<lambda>n. n \<noteq> []) (map Name_Category cs)"
  by (induction cs) auto

lemma tagNames_eq: "tagNames ts = filter (\<lambda>n. n \<noteq> []) (map Name_Tag ts)"
  by (induction ts) auto

lemma eventNames_eq: "eventNames es = filter (\<lambda>n. n \<noteq> []) (map Name_Event es)"
  by (induction es) auto

lemma markerBlock_eq:
  "markerBlock marker now =
     (if Name marker \<noteq> [] then
        ({Name marker},
         [markerOptionUpsert (Name marker) (OrganisationId marker) now
            (categoryNames (Categories marker))],
         [rangeDoc (Name marker) (OrganisationId marker) (StartTimestamp marker)
            (EndTimestamp marker) (DeviceId marker) (GroupId marker) now])
      else ({}, [], []))"
  by (simp add: markerBlock_def)

section \<open>Stages and traces\<close>

lemma bulkWriteStage_snd: "snd (bulkWriteStage env col msg ups tr) = tr @ bulkOps col ups"
  by (simp add: bulkWriteStage_def bulkOps_def split: option.splits)

lemma insertManyStage_snd: "snd (insertManyStage env col msg docs tr) = tr @ insertOps col docs"
  by (simp add: insertManyStage_def insertOps_def split: option.splits)

lemma bulkWriteStage_Some:
  "bulkWriteStage env col msg ups tr = (Some e, tr') \<Longrightarrow>
     tr' = tr @ [OpBulkWrite col ups] \<and> (\<exists>cause. e = Errorf msg cause)"
  by (auto simp: bulkWriteStage_def split: if_splits option.splits)

lemma insertManyStage_Some:
  "insertManyStage env col msg docs tr = (Some e, tr') \<Longrightarrow>
     tr' = tr @ [OpInsertMany col docs] \<and> (\<exists>cause. e = Errorf msg cause)"
  by (auto simp: insertManyStage_def split: if_splits option.splits)

lemma runStages_trace:
  "list_all2 (\<lambda>stage ops. \<forall>t. snd (stage t) = t @ ops) stages opss \<Longrightarrow>
   runStages stages tr = (eo, tr') \<Longrightarrow>
   \<exists>k\<le>length opss. tr' = tr @ concat (take k opss) \<and> (eo = None \<longrightarrow> k = length opss)"
proof (induction stages opss arbitrary: tr rule: list_all2_induct)
  case Nil
  then show ?case by simp
next
  case (Cons stage stages ops opss)
  obtain e1 t1 where s1: "stage tr = (e1, t1)" by (cases "stage tr")
  have t1: "t1 = tr @ ops" using Cons.hyps(1) s1 by (metis snd_conv)
  show ?case
  proof (cases e1)
    case (Some err)
    then have "eo = Some err" "tr' = t1" using Cons.prems s1 by simp_all
    then have "tr' = tr @ concat (take 1 (ops # opss)) \<and> (eo = None \<longrightarrow> 1 = length (ops # opss))"
      using t1 by simp
    then show ?thesis by (metis One_nat_def Suc_le_mono le0 length_Cons)
  next
    case None
    then have "runStages stages t1 = (eo, tr')" using Cons.prems s1 by simp
    from Cons.IH[OF this] obtain k where
      k: "k \<le> length opss" "tr' = t1 @ concat (take k opss)" "eo = None \<longrightarrow> k = length opss"
      by blast
    have "Suc k \<le> length (ops # opss) \<and> tr' = tr @ concat (take (Suc k) (ops # opss))
        \<and> (eo = None \<longrightarrow> Suc k = length (ops # opss))"
      using k t1 by simp
    then show ?thesis by blast
  qed
qed

lemma runStages_Some:
  "\<forall>stage\<in>set stages. \<forall>t e t'. stage t = (Some e, t') \<longrightarrow> P e t' \<Longrightarrow>
   runStages stages tr = (Some e, tr') \<Longrightarrow> P e tr'"
proof (induction stages arbitrary: tr)
  case Nil
  then show ?case by simp
next
  case (Cons stage stages)
  obtain e1 t1 where s1: "stage tr = (e1, t1)" by (cases "stage tr")
  show ?case
  proof (cases e1)
    case (Some err)
    then have "stage tr = (Some e, tr')" using Cons.prems(2) s1 by simp
    then show ?thesis using Cons.prems(1) by simp
  next
    case None
    then have "runStages stages t1 = (Some e, tr')" using Cons.prems(2) s1 by simp
    then show ?thesis using Cons.IH Cons.prems(1) by simp
  qed
qed

lemma optionStages_trace:
  assumes "runStages (optionStages env marker) tr = (eo, tr')"
  shows "\<exists>k\<le>length (stageOps marker (Now env)).
           tr' = tr @ concat (take k (stageOps marker (Now env))) \<and>
           (eo = None \<longrightarrow> k = length (stageOps marker (Now env)))"
proof -
  have "list_all2 (\<lambda>stage ops. \<forall>t. snd (stage t) = t @ ops)
          (optionStages env marker) (stageOps marker (Now env))"
    by (simp add: optionStages_def Let_def stageOps_def bulkWriteStage_snd insertManyStage_snd)
  from runStages_trace[OF this assms] show ?thesis .
qed

lemma optionStages_None:
  assumes "runStages (optionStages env marker) tr = (None, tr')"
  shows "tr' = tr @ concat (stageOps marker (Now env))"
  using optionStages_trace[OF assms] by auto

lemma optionStages_Some:
  assumes "runStages (optionStages env marker) tr = (Some e, tr')"
  shows "namesFailedWrite e tr'"
proof -
  have "\<forall>stage\<in>set (optionStages env marker). \<forall>t e t'.
          stage t = (Some e, t') \<longrightarrow> namesFailedWrite e t'"
    by (auto simp: optionStages_def Let_def namesFailedWrite_def stageMessages_def collection_defs
          dest!: bulkWriteStage_Some insertManyStage_Some)
  from runStages_Some[where P = namesFailedWrite, OF this assms] show ?thesis .
qed

lemma linkOne_snd: "snd (linkOne env marker oid tr) = tr @ mediaOps marker oid"
  by (simp add: linkOne_def mediaOps_def Let_def split: sum.splits)

lemma linkOne_Some:
  "linkOne env marker oid tr = (Some e, tr') \<Longrightarrow> namesFailedWrite e tr'"
  by (auto simp: linkOne_def Let_def namesFailedWrite_def stageMessages_def collection_defs
        split: if_splits sum.splits)

lemma linkMedia_Some:
  "linkMedia env marker ids tr = (Some e, tr') \<Longrightarrow>
     isInvalidReference e \<or> namesFailedWrite e tr'"
proof (induction ids arbitrary: tr)
  case Nil
  then show ?case by simp
next
  case (Cons s ids)
  show ?case
  proof (cases "s = []")
    case True
    then show ?thesis using Cons by simp
  next
    case False
    show ?thesis
    proof (cases "ObjectIDFromHex s")
      case (Inl err)
      then show ?thesis using Cons.prems False by (auto simp: isInvalidReference_def)
    next
      case (Inr oid)
      obtain e1 t1 where l1: "linkOne env marker oid tr = (e1, t1)"
        by (cases "linkOne env marker oid tr")
      show ?thesis
      proof (cases e1)
        case (Some err)
        then have "linkOne env marker oid tr = (Some e, tr')"
          using Cons.prems False Inr l1 by simp
        then show ?thesis using linkOne_Some by blast
      next
        case None
        then have "linkMedia env marker ids t1 = (Some e, tr')"
          using Cons.prems False Inr l1 by simp
        from Cons.IH[OF this] show ?thesis .
      qed
    qed
  qed
qed

lemma linkMedia_filter:
  "linkMedia env marker (filter (\<lambda>s. s \<noteq> []) ids) tr = linkMedia env marker ids tr"
  by (induction ids arbitrary: tr) (auto split: sum.splits option.splits prod.splits)

lemma linkMedia_append:
  "linkMedia env marker (pre @ post) tr =
     (case linkMedia env marker pre tr of
        (Some e, t) \<Rightarrow> (Some e, t)
      | (None, t) \<Rightarrow> linkMedia env marker post t)"
  by (induction pre arbitrary: tr) (auto split: sum.splits option.splits prod.splits)

lemma linkMedia_ops:
  "linkMedia env marker ids tr = (eo, tr') \<Longrightarrow>
     \<exists>ops. tr' = tr @ ops \<and> length ops \<le> length ids \<and>
           (\<forall>x\<in>set ops. isUpdateOne x \<and> collectionOf x = MEDIA_COLLECTION)"
proof (induction ids arbitrary: tr)
  case Nil
  then show ?case by simp
next
  case (Cons s ids)
  show ?case
  proof (cases "s = []")
    case True
    then have "linkMedia env marker ids tr = (eo, tr')" using Cons.prems by simp
    from Cons.IH[OF this] show ?thesis by auto
  next
    case False
    show ?thesis
    proof (cases "ObjectIDFromHex s")
      case (Inl err)
      then have "tr' = tr" using Cons.prems False by simp
      then show ?thesis by simp
    next
      case (Inr oid)
      obtain e1 t1 where l1: "linkOne env marker oid tr = (e1, t1)"
        by (cases "linkOne env marker oid tr")
      have t1: "t1 = tr @ mediaOps marker oid" using linkOne_snd[of env marker oid tr] l1 by simp
      have m: "length (mediaOps marker oid) \<le> 1 \<and>
               (\<forall>x\<in>set (mediaOps marker oid). isUpdateOne x \<and> collectionOf x = MEDIA_COLLECTION)"
        by (simp add: mediaOps_def)
      show ?thesis
      proof (cases e1)
        case (Some err)
        then have "tr' = t1" using Cons.prems False Inr l1 by simp
        then show ?thesis using t1 m by auto
      next
        case None
        then have "linkMedia env marker ids t1 = (eo, tr')"
          using Cons.prems False Inr l1 by simp
        from Cons.IH[OF this] obtain ops where
          ops: "tr' = t1 @ ops" "length ops \<le> length ids"
               "\<forall>x\<in>set ops. isUpdateOne x \<and> collectionOf x = MEDIA_COLLECTION" by blast
        have "tr' = tr @ (mediaOps marker oid @ ops) \<and>
              length (mediaOps marker oid @ ops) \<le> length (s # ids) \<and>
              (\<forall>x\<in>set (mediaOps marker oid @ ops). isUpdateOne x \<and> collectionOf x = MEDIA_COLLECTION)"
          using ops t1 m by auto
        then show ?thesis by blast
      qed
    qed
  qed
qed

lemma AddMarker_inserted:
  assumes "InsertOne env [] MARKERS_COLLECTION (m\<lparr>Id_Marker := NewObjectID env\<rparr>) = Inr (IdObject oid)"
  shows "AddMarkerToMongodb env m ids =
     (case runStages (optionStages env (m\<lparr>Id_Marker := oid\<rparr>))
             [OpInsertOne MARKERS_COLLECTION (m\<lparr>Id_Marker := NewObjectID env\<rparr>)] of
        (Some err, tr) \<Rightarrow> ((m\<lparr>Id_Marker := oid\<rparr>, Some err), tr)
      | (None, tr) \<Rightarrow>
          (case linkMedia env (m\<lparr>Id_Marker := oid\<rparr>) ids tr of
             (err, tr') \<Rightarrow> ((m\<lparr>Id_Marker := oid\<rparr>, err), tr')))"
  using assms by (simp add: AddMarkerToMongodb_def Let_def)

lemma AddMarker_not_inserted:
  assumes "\<forall>oid. InsertOne env [] MARKERS_COLLECTION (m\<lparr>Id_Marker := NewObjectID env\<rparr>) \<noteq> Inr (IdObject oid)"
  shows "\<exists>e. AddMarkerToMongodb env m ids =
     ((zeroMarker, Some e), [OpInsertOne MARKERS_COLLECTION (m\<lparr>Id_Marker := NewObjectID env\<rparr>)])"
  using assms by (auto simp: AddMarkerToMongodb_def Let_def split: sum.splits InsertedID.splits)

lemma AddMarker_success:
  assumes "AddMarkerToMongodb env m ids = ((r, None), tr)"
  shows "\<exists>oid tr1. InsertOne env [] MARKERS_COLLECTION (m\<lparr>Id_Marker := NewObjectID env\<rparr>) = Inr (IdObject oid)
          \<and> r = m\<lparr>Id_Marker := oid\<rparr>
          \<and> runStages (optionStages env r) [OpInsertOne MARKERS_COLLECTION (m\<lparr>Id_Marker := NewObjectID env\<rparr>)] = (None, tr1)
          \<and> linkMedia env r ids tr1 = (None, tr)"
  using assms
  by (auto simp: AddMarkerToMongodb_def Let_def split: sum.splits InsertedID.splits prod.splits option.splits)

lemma batches_Id [simp]:
  "markerOptUpserts (m\<lparr>Id_Marker := x\<rparr>) now = markerOptUpserts m now"
  "markerRangeDocs (m\<lparr>Id_Marker := x\<rparr>) now = markerRangeDocs m now"
  "tagOptUpserts (m\<lparr>Id_Marker := x\<rparr>) now = tagOptUpserts m now"
  "tagRangeDocs (m\<lparr>Id_Marker := x\<rparr>) now = tagRangeDocs m now"
  "eventOptUpserts (m\<lparr>Id_Marker := x\<rparr>) now = eventOptUpserts m now"
  "eventRangeDocs (m\<lparr>Id_Marker := x\<rparr>) now = eventRangeDocs m now"
  "categoryOptUpserts (m\<lparr>Id_Marker := x\<rparr>) now = categoryOptUpserts m now"
  by (simp_all add: markerOptUpserts_def markerRangeDocs_def tagOptUpserts_def tagRangeDocs_def
        eventOptUpserts_def eventRangeDocs_def categoryOptUpserts_def markerBlock_eq
        tagsLoop_eq eventsLoop_eq categoriesLoop_eq)

lemma result_pair: "fst p = (a, b) \<Longrightarrow> p = ((a, b), snd p)"
  by (cases p) simp

lemma Create_cases:
  "Create env marker = ((r, eo), tr) \<Longrightarrow>
     (r = zeroMarker \<and> eo \<noteq> None) \<or>
     (eo = None \<and> Name marker \<noteq> [] \<and>
      AddMarkerToMongodb env (marker\<lparr>Duration := EndTimestamp marker - StartTimestamp marker\<rparr>) []
        = ((r, None), tr))"
  by (auto simp: Create_def Let_def split: if_splits prod.splits option.splits)

lemma Create_success:
  assumes "Create env marker = ((r, None), tr)"
  shows "\<exists>oid. InsertOne env [] MARKERS_COLLECTION
           (marker\<lparr>Duration := EndTimestamp marker - StartTimestamp marker,
                   Id_Marker := NewObjectID env\<rparr>) = Inr (IdObject oid) \<and>
         r = marker\<lparr>Duration := EndTimestamp marker - StartTimestamp marker, Id_Marker := oid\<rparr>"
proof -
  from Create_cases[OF assms] have
    a: "AddMarkerToMongodb env (marker\<lparr>Duration := EndTimestamp marker - StartTimestamp marker\<rparr>) []
        = ((r, None), tr)" by simp
  from AddMarker_success[OF a] show ?thesis by auto
qed

section \<open>Runs on the concrete stores\<close>

lemma batches_Duration [simp]:
  "markerOptUpserts (m\<lparr>Duration := x\<rparr>) now = markerOptUpserts m now"
  "markerRangeDocs (m\<lparr>Duration := x\<rparr>) now = markerRangeDocs m now"
  "tagOptUpserts (m\<lparr>Duration := x\<rparr>) now = tagOptUpserts m now"
  "tagRangeDocs (m\<lparr>Duration := x\<rparr>) now = tagRangeDocs m now"
  "eventOptUpserts (m\<lparr>Duration := x\<rparr>) now = eventOptUpserts m now"
  "eventRangeDocs (m\<lparr>Duration := x\<rparr>) now = eventRangeDocs m now"
  "categoryOptUpserts (m\<lparr>Duration := x\<rparr>) now = categoryOptUpserts m now"
  by (simp_all add: markerOptUpserts_def markerRangeDocs_def tagOptUpserts_def tagRangeDocs_def
        eventOptUpserts_def eventRangeDocs_def categoryOptUpserts_def markerBlock_eq
        tagsLoop_eq eventsLoop_eq categoriesLoop_eq)

lemma stageOps_frame [simp]:
  "stageOps (m\<lparr>Id_Marker := x\<rparr>) now = stageOps m now"
  "stageOps (m\<lparr>Duration := d\<rparr>) now = stageOps m now"
  by (simp_all add: stageOps_def)

lemma okEnv_bulk: "bulkWriteStage okEnv col msg ups tr = (None, tr @ bulkOps col ups)"
  by (simp add: bulkWriteStage_def bulkOps_def okEnv_def)

lemma okEnv_insert: "insertManyStage okEnv col msg docs tr = (None, tr @ insertOps col docs)"
  by (simp add: insertManyStage_def insertOps_def okEnv_def)

lemma okEnv_stages:
  "runStages (optionStages okEnv m) tr = (None, tr @ concat (stageOps m (Now okEnv)))"
  by (simp add: optionStages_def Let_def stageOps_def okEnv_bulk okEnv_insert)

lemma okEnv_fields: "NewObjectID okEnv = [1, 2, 3, 4, 5, 6, 7, 8, 9, 10, 11, 12]" "Now okEnv = 1700000000"
  "InsertOne okEnv tr col doc = Inr (IdObject (Id_Marker doc))"
  "UpdateOne okEnv tr col f u = Inr 0"
  by (simp_all add: okEnv_def)

lemma AddMarker_okEnv:
  "AddMarkerToMongodb okEnv m [] =
     ((m\<lparr>Id_Marker := [1, 2, 3, 4, 5, 6, 7, 8, 9, 10, 11, 12]\<rparr>, None),
      OpInsertOne MARKERS_COLLECTION (m\<lparr>Id_Marker := [1, 2, 3, 4, 5, 6, 7, 8, 9, 10, 11, 12]\<rparr>)
        # concat (stageOps m 1700000000))"
  by (simp add: AddMarker_inserted[where oid = "[1, 2, 3, 4, 5, 6, 7, 8, 9, 10, 11, 12]"]
        okEnv_fields okEnv_stages)

lemma Create_okEnv:
  "Name m \<noteq> [] \<Longrightarrow>
   Create okEnv m =
     ((m\<lparr>Duration := EndTimestamp m - StartTimestamp m,
          Id_Marker := [1, 2, 3, 4, 5, 6, 7, 8, 9, 10, 11, 12]\<rparr>, None),
      OpInsertOne MARKERS_COLLECTION
        (m\<lparr>Duration := EndTimestamp m - StartTimestamp m,
            Id_Marker := [1, 2, 3, 4, 5, 6, 7, 8, 9, 10, 11, 12]\<rparr>)
        # concat (stageOps m 1700000000))"
  by (simp add: Create_def AddMarker_okEnv Let_def)

lemma Create_okEnv_alert:
  "fst (Create okEnv alert) =
     (alert\<lparr>Id_Marker := [1, 2, 3, 4, 5, 6, 7, 8, 9, 10, 11, 12], Duration := 10\<rparr>, None)"
proof -
  have "Name alert \<noteq> []" by (simp add: alert_def)
  from Create_okEnv[OF this] show ?thesis by (simp add: alert_def)
qed

lemma Create_late: "fst (Create okEnv late) = (late\<lparr>Id_Marker := [1, 2, 3, 4, 5, 6, 7, 8, 9, 10, 11, 12], Duration := - 10\<rparr>, None)"
proof -
  have "Name late \<noteq> []" by (simp add: late_def motion_def)
  from Create_okEnv[OF this] show ?thesis by (simp add: late_def motion_def)
qed

lemma Create_wrapped: "fst (Create okEnv wrapped) =
     (wrapped\<lparr>Id_Marker := [1, 2, 3, 4, 5, 6, 7, 8, 9, 10, 11, 12], Duration := 9223372036854775808\<rparr>, None)"
proof -
  have "Name wrapped \<noteq> []" by (simp add: wrapped_def motion_def)
  from Create_okEnv[OF this] show ?thesis by (simp add: wrapped_def motion_def)
qed

lemma stageOps_alert: "map collectionOf (concat (stageOps alert now)) = stageCollections"
  by (simp add: stageOps_def stageCollections_def bulkOps_def insertOps_def
   markerOptUpserts_def markerRangeDocs_def tagOptUpserts_def tagRangeDocs_def
        eventOptUpserts_def eventRangeDocs_def categoryOptUpserts_def markerBlock_eq
        tagsLoop_eq eventsLoop_eq categoriesLoop_eq alert_def)

section \<open>Traces of a call\<close>

lemma concat_take_subseq:
  "list_all2 (\<lambda>ops c. ops = [] \<or> map collectionOf ops = [c]) opss cs \<Longrightarrow>
   subseq (map collectionOf (concat (take k opss))) cs"
proof (induction opss cs arbitrary: k rule: list_all2_induct)
  case Nil
  then show ?case by simp
next
  case (Cons ops opss c cs)
  show ?case
  proof (cases k)
    case 0
    then show ?thesis by simp
  next
    case (Suc j)
    have rest: "subseq (map collectionOf (concat (take j opss))) cs" by (rule Cons.IH)
    from Cons.hyps(1) show ?thesis
    proof
      assume "ops = []"
      then show ?thesis using rest Suc by (simp add: list_emb_Cons)
    next
      assume "map collectionOf ops = [c]"
      then show ?thesis using rest Suc by simp
    qed
  qed
qed

lemma stageOps_subseq:
  "subseq (map collectionOf (concat (take k (stageOps m now)))) stageCollections"
proof -
  have "list_all2 (\<lambda>ops c. ops = [] \<or> map collectionOf ops = [c])
          (stageOps m now) stageCollections"
    by (simp add: stageOps_def stageCollections_def bulkOps_def insertOps_def)
  then show ?thesis by (rule concat_take_subseq)
qed

lemma media_subseq:
  assumes "length ops \<le> n" and "\<forall>x\<in>set ops. isUpdateOne x \<and> collectionOf x = MEDIA_COLLECTION"
  shows "subseq (map collectionOf ops) (replicate n MEDIA_COLLECTION)"
proof -
  have "map collectionOf ops = replicate (length ops) MEDIA_COLLECTION"
    using assms(2) by (induction ops) auto
  moreover have "replicate n MEDIA_COLLECTION =
      replicate (n - length ops) MEDIA_COLLECTION @ replicate (length ops) MEDIA_COLLECTION"
    using assms(1) by (simp flip: replicate_add)
  ultimately show ?thesis by (simp add: subseq_drop_many)
qed

lemma AddMarker_trace:
  assumes "AddMarkerToMongodb env m mediaIds = ((r, eo), tr)"
  shows "\<exists>k ops. tr = OpInsertOne MARKERS_COLLECTION (m\<lparr>Id_Marker := NewObjectID env\<rparr>)
                     # concat (take k (stageOps m (Now env))) @ ops \<and>
           length ops \<le> length mediaIds \<and>
           (\<forall>x\<in>set ops. isUpdateOne x \<and> collectionOf x = MEDIA_COLLECTION) \<and>
           (eo = None \<longrightarrow> k = length (stageOps m (Now env)))"
proof (cases "\<exists>oid. InsertOne env [] MARKERS_COLLECTION (m\<lparr>Id_Marker := NewObjectID env\<rparr>)
                 = Inr (IdObject oid)")
  case False
  then have "\<forall>oid. InsertOne env [] MARKERS_COLLECTION (m\<lparr>Id_Marker := NewObjectID env\<rparr>)
                 \<noteq> Inr (IdObject oid)" by simp
  from AddMarker_not_inserted[OF this, of mediaIds] assms
  have "tr = OpInsertOne MARKERS_COLLECTION (m\<lparr>Id_Marker := NewObjectID env\<rparr>)
               # concat (take 0 (stageOps m (Now env))) @ [] \<and> eo \<noteq> None"
    by auto
  then show ?thesis by (metis empty_iff length_0_conv list.set(1) zero_le)
next
  case True
  then obtain oid where
    ins: "InsertOne env [] MARKERS_COLLECTION (m\<lparr>Id_Marker := NewObjectID env\<rparr>) = Inr (IdObject oid)"
    by blast
  let ?tr1 = "[OpInsertOne MARKERS_COLLECTION (m\<lparr>Id_Marker := NewObjectID env\<rparr>)]"
  obtain e1 t1 where rs: "runStages (optionStages env (m\<lparr>Id_Marker := oid\<rparr>)) ?tr1 = (e1, t1)"
    by (cases "runStages (optionStages env (m\<lparr>Id_Marker := oid\<rparr>)) ?tr1")
  from optionStages_trace[OF rs] obtain k where
    k: "k \<le> length (stageOps m (Now env))"
       "t1 = ?tr1 @ concat (take k (stageOps m (Now env)))"
       "e1 = None \<longrightarrow> k = length (stageOps m (Now env))"
    by auto
  show ?thesis
  proof (cases e1)
    case (Some err)
    then have "tr = t1" "eo = Some err"
      using assms AddMarker_inserted[OF ins, of mediaIds] rs by simp_all
    then have "tr = OpInsertOne MARKERS_COLLECTION (m\<lparr>Id_Marker := NewObjectID env\<rparr>)
               # concat (take k (stageOps m (Now env))) @ [] \<and> eo \<noteq> None"
      using k by simp
    then show ?thesis by (metis empty_iff length_0_conv list.set(1) zero_le)
  next
    case None
    obtain e2 t2 where lm: "linkMedia env (m\<lparr>Id_Marker := oid\<rparr>) mediaIds t1 = (e2, t2)"
      by (cases "linkMedia env (m\<lparr>Id_Marker := oid\<rparr>) mediaIds t1")
    have res: "tr = t2" "eo = e2"
      using assms AddMarker_inserted[OF ins, of mediaIds] rs None lm by simp_all
    from linkMedia_ops[OF lm] obtain ops where
      ops: "t2 = t1 @ ops" "length ops \<le> length mediaIds"
           "\<forall>x\<in>set ops. isUpdateOne x \<and> collectionOf x = MEDIA_COLLECTION" by blast
    have "tr = OpInsertOne MARKERS_COLLECTION (m\<lparr>Id_Marker := NewObjectID env\<rparr>)
               # concat (take k (stageOps m (Now env))) @ ops"
      using res ops k by simp
    moreover have "eo = None \<longrightarrow> k = length (stageOps m (Now env))" using k None by simp
    ultimately show ?thesis using ops by blast
  qed
qed

lemma parse_good: "ObjectIDFromHex goodMediaId = Inr goodObjectId"
  by (simp add: ObjectIDFromHex_def goodMediaId_def goodObjectId_def fromHexChar_def)

lemma parse_bad: "ObjectIDFromHex badMediaId = Inl InvalidHex"
  by (simp add: ObjectIDFromHex_def badMediaId_def)

lemma nonempty_ids: "goodMediaId \<noteq> []" "badMediaId \<noteq> []"
  by (simp_all add: goodMediaId_def badMediaId_def)

lemma updateDoc_frame [simp]:
  "updateDoc (m\<lparr>Id_Marker := x\<rparr>) = updateDoc m"
  "updateDoc (m\<lparr>Duration := d\<rparr>) = updateDoc m"
  by (simp_all add: updateDoc_def markerNames_def)

lemma mediaFilter_frame [simp]:
  "mediaFilter oid (m\<lparr>Id_Marker := x\<rparr>) = mediaFilter oid m"
  "mediaFilter oid (m\<lparr>Duration := d\<rparr>) = mediaFilter oid m"
  by (simp_all add: mediaFilter_def)

lemma mediaOps_frame [simp]:
  "mediaOps (m\<lparr>Id_Marker := x\<rparr>) oid = mediaOps m oid"
  "mediaOps (m\<lparr>Duration := d\<rparr>) oid = mediaOps m oid"
  by (simp_all add: mediaOps_def)

lemma okEnv_linkOne: "linkOne okEnv m oid tr = (None, tr @ mediaOps m oid)"
  by (simp add: linkOne_def mediaOps_def Let_def okEnv_fields)

lemma AddMarker_okEnv_good:
  "AddMarkerToMongodb okEnv m [goodMediaId] =
     ((m\<lparr>Id_Marker := [1, 2, 3, 4, 5, 6, 7, 8, 9, 10, 11, 12]\<rparr>, None),
      OpInsertOne MARKERS_COLLECTION (m\<lparr>Id_Marker := [1, 2, 3, 4, 5, 6, 7, 8, 9, 10, 11, 12]\<rparr>)
        # concat (stageOps m 1700000000) @ mediaOps m goodObjectId)"
  by (simp add: AddMarker_inserted[where oid = "[1, 2, 3, 4, 5, 6, 7, 8, 9, 10, 11, 12]"]
        okEnv_fields okEnv_stages nonempty_ids parse_good okEnv_linkOne)

lemma batches_alert:
  "markerOptUpserts alert now \<noteq> []" "markerRangeDocs alert now \<noteq> []"
  "tagOptUpserts alert now \<noteq> []" "tagRangeDocs alert now \<noteq> []"
  "eventOptUpserts alert now \<noteq> []" "eventRangeDocs alert now \<noteq> []"
  "categoryOptUpserts alert now \<noteq> []"
  by (simp_all add: markerOptUpserts_def markerRangeDocs_def tagOptUpserts_def tagRangeDocs_def
        eventOptUpserts_def eventRangeDocs_def categoryOptUpserts_def markerBlock_eq
        tagsLoop_eq eventsLoop_eq categoriesLoop_eq alert_def)

lemma updateDoc_alert: "updateDoc alert \<noteq> []"
  by (simp add: updateDoc_def markerNames_def alert_def)

lemma Name_alert: "Name alert \<noteq> []"
  by (simp add: alert_def)

lemma failEnv_fields:
  "NewObjectID (failEnv c) = [1, 2, 3, 4, 5, 6, 7, 8, 9, 10, 11, 12]" "Now (failEnv c) = 1700000000"
  "InsertOne (failEnv c) tr col doc = Inr (IdObject (Id_Marker doc))"
  by (simp_all add: failEnv_def)

lemma failEnv_bulk:
  "bulkWriteStage (failEnv c) col msg ups tr =
     (if ups = [] then (None, tr)
      else (if col = c then Some (Errorf msg (Driver ''write failed'')) else None,
            tr @ [OpBulkWrite col ups]))"
  by (simp add: bulkWriteStage_def failEnv_def)

lemma failEnv_insert:
  "insertManyStage (failEnv c) col msg docs tr =
     (if docs = [] then (None, tr)
      else (if col = c then Some (Errorf msg (Driver ''write failed'')) else None,
            tr @ [OpInsertMany col docs]))"
  by (simp add: insertManyStage_def failEnv_def)

lemma batches_motion:
  "markerOptUpserts motion now \<noteq> []" "markerRangeDocs motion now \<noteq> []"
  by (simp_all add: markerOptUpserts_def markerRangeDocs_def markerBlock_eq motion_def)

lemma AddMarker_failEnv_motion:
  "AddMarkerToMongodb (failEnv MARKER_OPTION_RANGES_COLLECTION) (motion\<lparr>Duration := 10\<rparr>) [] =
     ((motion\<lparr>Duration := 10, Id_Marker := [1, 2, 3, 4, 5, 6, 7, 8, 9, 10, 11, 12]\<rparr>,
       Some (Errorf ''failed to insert marker ranges'' (Driver ''write failed''))),
      [OpInsertOne MARKERS_COLLECTION
         (motion\<lparr>Duration := 10, Id_Marker := [1, 2, 3, 4, 5, 6, 7, 8, 9, 10, 11, 12]\<rparr>),
       OpBulkWrite MARKER_OPTIONS_COLLECTION (markerOptUpserts motion 1700000000),
       OpInsertMany MARKER_OPTION_RANGES_COLLECTION (markerRangeDocs motion 1700000000)])"
proof -
  have "runStages (optionStages (failEnv MARKER_OPTION_RANGES_COLLECTION)
          (motion\<lparr>Duration := 10, Id_Marker := [1, 2, 3, 4, 5, 6, 7, 8, 9, 10, 11, 12]\<rparr>)) tr =
        (Some (Errorf ''failed to insert marker ranges'' (Driver ''write failed'')),
         tr @ [OpBulkWrite MARKER_OPTIONS_COLLECTION (markerOptUpserts motion 1700000000),
               OpInsertMany MARKER_OPTION_RANGES_COLLECTION (markerRangeDocs motion 1700000000)])"
    for tr
    by (simp add: optionStages_def Let_def failEnv_bulk failEnv_insert failEnv_fields
          batches_motion collection_defs)
  then show ?thesis
    by (simp add: AddMarker_inserted[where oid = "[1, 2, 3, 4, 5, 6, 7, 8, 9, 10, 11, 12]"]
          failEnv_fields)
qed

lemma Create_failEnv_motion:
  "Create (failEnv MARKER_OPTION_RANGES_COLLECTION) motion =
     ((zeroMarker, Some (Errorf ''failed to insert marker ranges'' (Driver ''write failed''))),
      [OpInsertOne MARKERS_COLLECTION
         (motion\<lparr>Duration := 10, Id_Marker := [1, 2, 3, 4, 5, 6, 7, 8, 9, 10, 11, 12]\<rparr>),
       OpBulkWrite MARKER_OPTIONS_COLLECTION (markerOptUpserts motion 1700000000),
       OpInsertMany MARKER_OPTION_RANGES_COLLECTION (markerRangeDocs motion 1700000000)])"
proof -
  have "motion\<lparr>Duration := EndTimestamp motion - StartTimestamp motion\<rparr> = motion\<lparr>Duration := 10\<rparr>"
    by (simp add: motion_def)
  moreover have "Name motion \<noteq> []" by (simp add: motion_def)
  ultimately show ?thesis by (simp add: Create_def Let_def AddMarker_failEnv_motion)
qed

section \<open>Batches and the media loop\<close>

lemma filter_bulk [simp]:
  "filter isBulkWrite (bulkOps c b) = bulkOps c b"
  "filter isBulkWrite (insertOps c d) = []"
  "filter isInsertMany (bulkOps c b) = []"
  "filter isInsertMany (insertOps c d) = insertOps c d"
  by (simp_all add: bulkOps_def insertOps_def)

lemma filter_updates:
  "list_all isUpdateOne ops \<Longrightarrow> filter isBulkWrite ops = [] \<and> filter isInsertMany ops = []"
proof (induction ops)
  case Nil
  then show ?case by simp
next
  case (Cons x ops)
  then show ?case by (cases x) simp_all
qed

lemma AddMarker_success_trace:
  assumes "AddMarkerToMongodb env m mediaIds = ((r, None), tr)"
  shows "filter isBulkWrite tr =
           bulkOps MARKER_OPTIONS_COLLECTION (markerOptUpserts m (Now env)) @
           bulkOps MARKER_TAG_OPTIONS_COLLECTION (tagOptUpserts m (Now env)) @
           bulkOps MARKER_EVENT_OPTIONS_COLLECTION (eventOptUpserts m (Now env)) @
           bulkOps MARKER_CATEGORY_OPTIONS_COLLECTION (categoryOptUpserts m (Now env))"
    and "filter isInsertMany tr =
           insertOps MARKER_OPTION_RANGES_COLLECTION (markerRangeDocs m (Now env)) @
           insertOps MARKER_TAG_OPTION_RANGES_COLLECTION (tagRangeDocs m (Now env)) @
           insertOps MARKER_EVENT_OPTION_RANGES_COLLECTION (eventRangeDocs m (Now env))"
proof -
  from AddMarker_trace[OF assms] obtain k ops where
    tr: "tr = OpInsertOne MARKERS_COLLECTION (m\<lparr>Id_Marker := NewObjectID env\<rparr>)
                # concat (take k (stageOps m (Now env))) @ ops"
    and med: "\<forall>x\<in>set ops. isUpdateOne x \<and> collectionOf x = MEDIA_COLLECTION"
    and full: "k = length (stageOps m (Now env))"
    by blast
  have "list_all isUpdateOne ops" using med by (simp add: list_all_iff)
  note f = filter_updates[OF this]
  show "filter isBulkWrite tr =
           bulkOps MARKER_OPTIONS_COLLECTION (markerOptUpserts m (Now env)) @
           bulkOps MARKER_TAG_OPTIONS_COLLECTION (tagOptUpserts m (Now env)) @
           bulkOps MARKER_EVENT_OPTIONS_COLLECTION (eventOptUpserts m (Now env)) @
           bulkOps MARKER_CATEGORY_OPTIONS_COLLECTION (categoryOptUpserts m (Now env))"
    using tr full f by (simp add: stageOps_def)
  show "filter isInsertMany tr =
           insertOps MARKER_OPTION_RANGES_COLLECTION (markerRangeDocs m (Now env)) @
           insertOps MARKER_TAG_OPTION_RANGES_COLLECTION (tagRangeDocs m (Now env)) @
           insertOps MARKER_EVENT_OPTION_RANGES_COLLECTION (eventRangeDocs m (Now env))"
    using tr full f by (simp add: stageOps_def)
qed

lemma distinctNames_single: "distinctNames [n] = (if n = [] then [] else [n])"
  by (simp add: distinctNames_def)

lemma updateDoc_empty:
  "(updateDoc marker = []) =
     (Name marker = [] \<and> list_all (\<lambda>t. Name_Tag t = []) (Tags marker) \<and>
      list_all (\<lambda>e. Name_Event e = []) (Events marker))"
  by (auto simp: updateDoc_def markerNames_def tagNames_eq eventNames_eq filter_empty_conv
        list_all_iff)

lemma linkMedia_parsed:
  "mediaId \<noteq> [] \<Longrightarrow> ObjectIDFromHex mediaId = Inr oid \<Longrightarrow>
   linkMedia env marker (mediaId # rest) tr =
     (case linkOne env marker oid tr of
        (Some e, t) \<Rightarrow> (Some e, t)
      | (None, t) \<Rightarrow> linkMedia env marker rest t)"
  by simp

lemma matchesFilter_mediaFilter:
  "matchesFilter (mediaFilter oid marker) d \<longleftrightarrow>
     Id_Media d = oid \<and> sint (StartTimestamp_Media d) \<le> sint (StartTimestamp marker) \<and>
     sint (StartTimestamp marker) \<le> sint (EndTimestamp_Media d)"
  by (auto simp: mediaFilter_def mediaField_def condHolds_def)

lemma linkMedia_bad:
  assumes "bad \<noteq> []" and "ObjectIDFromHex bad = Inl err"
  shows "linkMedia env m (pre @ bad # post) tr =
           (case linkMedia env m pre tr of
              (Some e, t) \<Rightarrow> (Some e, t)
            | (None, t) \<Rightarrow> (Some (Errorf ''invalid mediaId format'' err), t))"
  using assms by (simp add: linkMedia_append split: prod.splits option.splits)

lemma linkMedia_bad_post:
  assumes "bad \<noteq> []" and "ObjectIDFromHex bad = Inl err"
  shows "linkMedia env m (pre @ bad # post) tr = linkMedia env m (pre @ [bad]) tr"
  using linkMedia_bad[OF assms, of env m pre post tr] linkMedia_bad[OF assms, of env m pre "[]" tr]
  by simp

lemma linkMedia_bad_fails:
  assumes "bad \<noteq> []" and "ObjectIDFromHex bad = Inl err"
  shows "fst (linkMedia env m (pre @ bad # post) tr) \<noteq> None"
  using linkMedia_bad[OF assms, of env m pre post tr]
  by (auto split: prod.splits option.splits)

lemma AddMarker_link_fails:
  assumes "\<And>mk tr. fst (linkMedia env mk ids tr) \<noteq> None"
  shows "snd (fst (AddMarkerToMongodb env m ids)) \<noteq> None"
proof -
  have "e \<noteq> None" if "linkMedia env mk ids t = (e, t')" for mk t e t'
    using assms[of mk t] that by simp
  then show ?thesis
    by (auto simp: AddMarkerToMongodb_def Let_def
          split: sum.splits InsertedID.splits prod.splits option.splits)
qed

section \<open>Runs and the answers of the store\<close>

lemma answers_append:
  "answers env hist (a @ b) = answers env hist a @ answers env (hist @ a) b"
  by (induction a arbitrary: hist) simp_all

lemma length_answers [simp]: "length (answers env hist ops) = length ops"
  by (induction ops arbitrary: hist) simp_all

lemma accepted_Nil [simp]: "accepted env hist []"
  by (simp add: accepted_def)

lemma accepted_append:
  "accepted env hist (a @ b) = (accepted env hist a \<and> accepted env (hist @ a) b)"
  by (simp add: accepted_def answers_append)

lemma accepted_single: "accepted env hist [x] = (storeError env hist x = None)"
  by (simp add: accepted_def)

lemma failedAt_append:
  "accepted env hist a \<Longrightarrow> failedAt env (hist @ a) b e \<Longrightarrow> failedAt env hist (a @ b) e"
  unfolding failedAt_def
  by (metis accepted_append append.assoc)

lemma failedAt_not_accepted: "failedAt env hist ops e \<Longrightarrow> \<not> accepted env hist ops"
  by (auto simp: failedAt_def accepted_append accepted_single)

lemma failedAt_nonempty: "failedAt env hist ops e \<Longrightarrow> ops \<noteq> []"
  by (auto simp: failedAt_def)

lemma failedAt_single:
  "storeError env hist x = Some cause \<Longrightarrow> map_of stageMessages (collectionOf x) = Some msg \<Longrightarrow>
   failedAt env hist [x] (Errorf msg cause)"
  unfolding failedAt_def by (metis accepted_Nil append_Nil append_Nil2)

lemma bulkWriteStage_sem:
  "map_of stageMessages col = Some msg \<Longrightarrow>
   stageSem env (bulkWriteStage env col msg ups) (bulkOps col ups)"
  by (auto simp: stageSem_def bulkWriteStage_def bulkOps_def accepted_single
        intro: failedAt_single split: option.splits)

lemma insertManyStage_sem:
  "map_of stageMessages col = Some msg \<Longrightarrow>
   stageSem env (insertManyStage env col msg docs) (insertOps col docs)"
  by (auto simp: stageSem_def insertManyStage_def insertOps_def accepted_single
        intro: failedAt_single split: option.splits)

lemma runStages_sem:
  "list_all2 (stageSem env) stages opss \<Longrightarrow>
   runStages stages tr = (eo, tr') \<Longrightarrow>
   \<exists>k\<le>length opss. tr' = tr @ concat (take k opss) \<and>
     (case eo of
        None \<Rightarrow> k = length opss \<and> accepted env tr (concat opss)
      | Some e \<Rightarrow> failedAt env tr (concat (take k opss)) e)"
proof (induction stages opss arbitrary: tr rule: list_all2_induct)
  case Nil
  then show ?case by auto
next
  case (Cons stage stages ops opss)
  obtain e1 t1 where s1: "stage tr = (e1, t1)" by (cases "stage tr")
  have t1: "t1 = tr @ ops" using Cons.hyps(1) s1 by (simp add: stageSem_def) (metis snd_conv)
  have sem: "case e1 of None \<Rightarrow> accepted env tr ops | Some e \<Rightarrow> failedAt env tr ops e"
    using Cons.hyps(1) s1 by (simp add: stageSem_def) (metis fst_conv)
  show ?case
  proof (cases e1)
    case (Some err)
    then have res: "eo = Some err" "tr' = t1" using Cons.prems s1 by simp_all
    have "failedAt env tr ops err" using sem Some by simp
    then have "(1::nat) \<le> length (ops # opss) \<and> tr' = tr @ concat (take 1 (ops # opss)) \<and>
          (case eo of
             None \<Rightarrow> 1 = length (ops # opss) \<and> accepted env tr (concat (ops # opss))
           | Some e \<Rightarrow> failedAt env tr (concat (take 1 (ops # opss))) e)"
      using res t1 by simp
    then show ?thesis by blast
  next
    case None
    then have run: "runStages stages t1 = (eo, tr')" using Cons.prems s1 by simp
    have acc: "accepted env tr ops" using sem None by simp
    from Cons.IH[OF run] obtain k where
      k: "k \<le> length opss" "tr' = t1 @ concat (take k opss)"
         "case eo of None \<Rightarrow> k = length opss \<and> accepted env t1 (concat opss)
                   | Some e \<Rightarrow> failedAt env t1 (concat (take k opss)) e"
      by blast
    have "Suc k \<le> length (ops # opss) \<and> tr' = tr @ concat (take (Suc k) (ops # opss)) \<and>
          (case eo of
             None \<Rightarrow> Suc k = length (ops # opss) \<and> accepted env tr (concat (ops # opss))
           | Some e \<Rightarrow> failedAt env tr (concat (take (Suc k) (ops # opss))) e)"
      using k t1 acc by (auto simp: accepted_append failedAt_append split: option.splits)
    then show ?thesis by blast
  qed
qed

lemma optionStages_sem:
  assumes "runStages (optionStages env marker) tr = (eo, tr')"
  shows "\<exists>k\<le>length (stageOps marker (Now env)).
           tr' = tr @ concat (take k (stageOps marker (Now env))) \<and>
           (case eo of
              None \<Rightarrow> k = length (stageOps marker (Now env)) \<and>
                       accepted env tr (concat (stageOps marker (Now env)))
            | Some e \<Rightarrow> failedAt env tr (concat (take k (stageOps marker (Now env)))) e)"
proof -
  have "list_all2 (stageSem env) (optionStages env marker) (stageOps marker (Now env))"
    by (simp add: optionStages_def Let_def stageOps_def bulkWriteStage_sem insertManyStage_sem
          stageMessages_def collection_defs)
  from runStages_sem[OF this assms] show ?thesis .
qed

lemma linkOne_sem: "stageSem env (linkOne env marker oid) (mediaOps marker oid)"
  by (auto simp: stageSem_def linkOne_def mediaOps_def Let_def accepted_single
        stageMessages_def collection_defs intro!: failedAt_single split: sum.splits)

lemma mediaPlan_simps [simp]:
  "mediaPlan marker [] = []"
  "mediaPlan marker ([] # rest) = mediaPlan marker rest"
  "s \<noteq> [] \<Longrightarrow> ObjectIDFromHex s = Inr oid \<Longrightarrow>
     mediaPlan marker (s # rest) = mediaOps marker oid @ mediaPlan marker rest"
  by (simp_all add: mediaPlan_def)

lemma mediaOps_media:
  "length (mediaOps marker oid) \<le> 1 \<and>
   (\<forall>x\<in>set (mediaOps marker oid). isUpdateOne x \<and> collectionOf x = MEDIA_COLLECTION)"
  by (simp add: mediaOps_def)

lemma linkMedia_sem:
  "linkMedia env marker ids tr = (eo, tr') \<Longrightarrow>
     \<exists>ops. tr' = tr @ ops \<and> length ops \<le> length ids \<and>
           (\<forall>x\<in>set ops. isUpdateOne x \<and> collectionOf x = MEDIA_COLLECTION) \<and>
           (case eo of
              None \<Rightarrow> accepted env tr ops \<and> ops = mediaPlan marker ids
            | Some e \<Rightarrow> (isInvalidReference e \<and> accepted env tr ops) \<or> failedAt env tr ops e)"
proof (induction ids arbitrary: tr)
  case Nil
  then show ?case by auto
next
  case (Cons s ids)
  show ?case
  proof (cases "s = []")
    case True
    then have "linkMedia env marker ids tr = (eo, tr')" using Cons.prems by simp
    from Cons.IH[OF this] show ?thesis using True by (auto split: option.splits)
  next
    case False
    show ?thesis
    proof (cases "ObjectIDFromHex s")
      case (Inl err)
      then have "tr' = tr @ []" "eo = Some (Errorf ''invalid mediaId format'' err)"
        using Cons.prems False by simp_all
      then show ?thesis by (auto simp: isInvalidReference_def)
    next
      case (Inr oid)
      obtain e1 t1 where l1: "linkOne env marker oid tr = (e1, t1)"
        by (cases "linkOne env marker oid tr")
      have t1: "t1 = tr @ mediaOps marker oid"
        using linkOne_sem[of env marker oid] l1 by (simp add: stageSem_def) (metis snd_conv)
      have sem: "case e1 of None \<Rightarrow> accepted env tr (mediaOps marker oid)
                          | Some e \<Rightarrow> failedAt env tr (mediaOps marker oid) e"
        using linkOne_sem[of env marker oid] l1 by (simp add: stageSem_def) (metis fst_conv)
      note m = mediaOps_media[of marker oid]
      show ?thesis
      proof (cases e1)
        case (Some err)
        then have res: "tr' = t1" "eo = Some err" using Cons.prems False Inr l1 by simp_all
        have "failedAt env tr (mediaOps marker oid) err" using sem Some by simp
        then have "tr' = tr @ mediaOps marker oid \<and>
            length (mediaOps marker oid) \<le> length (s # ids) \<and>
            (\<forall>x\<in>set (mediaOps marker oid). isUpdateOne x \<and> collectionOf x = MEDIA_COLLECTION) \<and>
            (case eo of
               None \<Rightarrow> accepted env tr (mediaOps marker oid) \<and>
                        mediaOps marker oid = mediaPlan marker (s # ids)
             | Some e \<Rightarrow> (isInvalidReference e \<and> accepted env tr (mediaOps marker oid)) \<or>
                         failedAt env tr (mediaOps marker oid) e)"
          using res t1 m by simp
        then show ?thesis by blast
      next
        case None
        then have run: "linkMedia env marker ids t1 = (eo, tr')"
          using Cons.prems False Inr l1 by simp
        have acc: "accepted env tr (mediaOps marker oid)" using sem None by simp
        from Cons.IH[OF run] obtain ops where
          ops: "tr' = t1 @ ops" "length ops \<le> length ids"
               "\<forall>x\<in>set ops. isUpdateOne x \<and> collectionOf x = MEDIA_COLLECTION"
               "case eo of
                  None \<Rightarrow> accepted env t1 ops \<and> ops = mediaPlan marker ids
                | Some e \<Rightarrow> (isInvalidReference e \<and> accepted env t1 ops) \<or> failedAt env t1 ops e"
          by blast
        have "tr' = tr @ (mediaOps marker oid @ ops) \<and>
              length (mediaOps marker oid @ ops) \<le> length (s # ids) \<and>
              (\<forall>x\<in>set (mediaOps marker oid @ ops).
                 isUpdateOne x \<and> collectionOf x = MEDIA_COLLECTION) \<and>
              (case eo of
                 None \<Rightarrow> accepted env tr (mediaOps marker oid @ ops) \<and>
                          mediaOps marker oid @ ops = mediaPlan marker (s # ids)
               | Some e \<Rightarrow> (isInvalidReference e \<and> accepted env tr (mediaOps marker oid @ ops)) \<or>
                           failedAt env tr (mediaOps marker oid @ ops) e)"
          using ops t1 m acc False Inr
          by (auto simp: accepted_append failedAt_append split: option.splits)
        then show ?thesis by blast
      qed
    qed
  qed
qed

lemma mediaPlan_frame [simp]:
  "mediaPlan (m\<lparr>Id_Marker := x\<rparr>) ids = mediaPlan m ids"
  "mediaPlan (m\<lparr>Duration := d\<rparr>) ids = mediaPlan m ids"
  by (simp_all add: mediaPlan_def cong: if_cong sum.case_cong)

lemma failedAt_answers:
  assumes "failedAt env hist ops e"
  shows "\<exists>cause msg. ops \<noteq> [] \<and> list_all (\<lambda>a. a = None) (butlast (answers env hist ops)) \<and>
           last (answers env hist ops) = Some cause \<and> e = Errorf msg cause \<and>
           map_of stageMessages (collectionOf (last ops)) = Some msg"
proof -
  from assms obtain pre x cause msg where
    d: "ops = pre @ [x]" "accepted env hist pre" "storeError env (hist @ pre) x = Some cause"
       "e = Errorf msg cause" "map_of stageMessages (collectionOf x) = Some msg"
    unfolding failedAt_def by blast
  have "answers env hist ops = answers env hist pre @ [Some cause]"
    using d by (simp add: answers_append)
  then show ?thesis using d by (auto simp: accepted_def)
qed

lemma accepted_butlast:
  "accepted env hist ops \<Longrightarrow> list_all (\<lambda>a. a = None) (butlast (answers env hist ops))"
  by (auto simp: accepted_def list_all_iff dest: in_set_butlastD)

lemma AddMarker_run:
  assumes ins: "InsertOne env [] MARKERS_COLLECTION (m\<lparr>Id_Marker := NewObjectID env\<rparr>)
                = Inr (IdObject oid)"
    and run: "AddMarkerToMongodb env m mediaIds = ((r, eo), tr)"
  shows "r = m\<lparr>Id_Marker := oid\<rparr> \<and>
    (\<exists>k ops. k \<le> length (stageOps m (Now env)) \<and>
       tr = OpInsertOne MARKERS_COLLECTION (m\<lparr>Id_Marker := NewObjectID env\<rparr>)
              # concat (take k (stageOps m (Now env))) @ ops \<and>
       length ops \<le> length mediaIds \<and>
       (\<forall>x\<in>set ops. isUpdateOne x \<and> collectionOf x = MEDIA_COLLECTION) \<and>
       (k < length (stageOps m (Now env)) \<longrightarrow> ops = []) \<and>
       (case eo of
          None \<Rightarrow> k = length (stageOps m (Now env)) \<and> ops = mediaPlan m mediaIds \<and>
            accepted env [OpInsertOne MARKERS_COLLECTION (m\<lparr>Id_Marker := NewObjectID env\<rparr>)]
              (concat (take k (stageOps m (Now env))) @ ops)
        | Some e \<Rightarrow>
            (isInvalidReference e \<and> k = length (stageOps m (Now env)) \<and>
             accepted env [OpInsertOne MARKERS_COLLECTION (m\<lparr>Id_Marker := NewObjectID env\<rparr>)]
               (concat (take k (stageOps m (Now env))) @ ops)) \<or>
            failedAt env [OpInsertOne MARKERS_COLLECTION (m\<lparr>Id_Marker := NewObjectID env\<rparr>)]
              (concat (take k (stageOps m (Now env))) @ ops) e))"
proof -
  let ?ins = "OpInsertOne MARKERS_COLLECTION (m\<lparr>Id_Marker := NewObjectID env\<rparr>)"
  let ?S = "stageOps m (Now env)"
  let ?m = "m\<lparr>Id_Marker := oid\<rparr>"
  note unfolded = AddMarker_inserted[OF ins, of mediaIds]
  obtain e1 t1 where rs: "runStages (optionStages env ?m) [?ins] = (e1, t1)"
    by (cases "runStages (optionStages env ?m) [?ins]")
  from optionStages_sem[OF rs, unfolded stageOps_frame] have
    "\<exists>k\<le>length ?S. t1 = [?ins] @ concat (take k ?S) \<and>
       (case e1 of None \<Rightarrow> k = length ?S \<and> accepted env [?ins] (concat ?S)
                 | Some e \<Rightarrow> failedAt env [?ins] (concat (take k ?S)) e)"
    by simp
  then obtain k where
    k: "k \<le> length ?S" "t1 = [?ins] @ concat (take k ?S)"
       "case e1 of None \<Rightarrow> k = length ?S \<and> accepted env [?ins] (concat ?S)
                 | Some e \<Rightarrow> failedAt env [?ins] (concat (take k ?S)) e"
    by blast
  show ?thesis
  proof (cases e1)
    case (Some err)
    then have res: "r = ?m" "eo = Some err" "tr = t1" using run unfolded rs by simp_all
    have "k \<le> length ?S \<and> tr = ?ins # concat (take k ?S) @ [] \<and>
          failedAt env [?ins] (concat (take k ?S) @ []) err"
      using k Some res by simp
    then show ?thesis using res by (intro conjI exI[of _ k] exI[of _ "[]"]) auto
  next
    case None
    obtain e2 t2 where lm: "linkMedia env ?m mediaIds t1 = (e2, t2)"
      by (cases "linkMedia env ?m mediaIds t1")
    have res: "r = ?m" "eo = e2" "tr = t2" using run unfolded rs None lm by simp_all
    have full: "k = length ?S" "accepted env [?ins] (concat ?S)" using k None by simp_all
    from linkMedia_sem[OF lm] obtain ops where
      ops: "t2 = t1 @ ops" "length ops \<le> length mediaIds"
           "\<forall>x\<in>set ops. isUpdateOne x \<and> collectionOf x = MEDIA_COLLECTION"
           "case e2 of
              None \<Rightarrow> accepted env t1 ops \<and> ops = mediaPlan ?m mediaIds
            | Some e \<Rightarrow> (isInvalidReference e \<and> accepted env t1 ops) \<or> failedAt env t1 ops e"
      by blast
    have t1: "t1 = [?ins] @ concat ?S" using k full by simp
    have sem: "case eo of
          None \<Rightarrow> ops = mediaPlan m mediaIds \<and> accepted env [?ins] (concat ?S @ ops)
        | Some e \<Rightarrow> (isInvalidReference e \<and> accepted env [?ins] (concat ?S @ ops)) \<or>
                    failedAt env [?ins] (concat ?S @ ops) e"
      using ops(4) full(2) res(2) unfolding t1
      by (auto simp: accepted_append failedAt_append split: option.splits)
    have "k \<le> length ?S \<and> tr = ?ins # concat (take k ?S) @ ops"
      using res ops t1 full by simp
    then show ?thesis using res(1) ops(2,3) sem full(1)
      by (intro conjI exI[of _ k] exI[of _ ops]) (auto split: option.splits)
  qed
qed

lemma answers_inserted:
  "InsertOne env [] c d = Inr i \<Longrightarrow>
   answers env [] (OpInsertOne c d # rest) = None # answers env [OpInsertOne c d] rest"
  by simp

lemma last_in_set_none:
  "list_all (\<lambda>a. a = None) (butlast xs) \<Longrightarrow> Some c \<in> set xs \<Longrightarrow> last xs = Some c"
  by (induction xs) (auto split: if_splits)

lemma failEnv_store:
  "BulkWrite (failEnv c) tr col ups = (if col = c then Some (Driver ''write failed'') else None)"
  "InsertMany (failEnv c) tr col docs = (if col = c then Some (Driver ''write failed'') else None)"
  by (simp_all add: failEnv_def)

lemma Name_motion: "Name motion \<noteq> []"
  by (simp add: motion_def)

section \<open>Validation\<close>

text \<open>
  C3. A marker whose name is the empty string is rejected by \<^verbatim>\<open>Create\<close> with the
  validation error, the zero-value marker is returned, and no write of any kind reaches
  the store: the list of issued writes is empty.
\<close>

theorem Create_empty_name:
  "Name marker = [] \<Longrightarrow>
     Create env marker = ((zeroMarker, Some (New ''marker name is required'')), [])"
  by (simp add: Create_def)

theorem Create_empty_name_witness:
  "Name (alert\<lparr>Name := []\<rparr>) = [] \<and>
   Create okEnv (alert\<lparr>Name := []\<rparr>) = ((zeroMarker, Some (New ''marker name is required'')), [])"
  using Create_empty_name [of "alert\<lparr>Name := []\<rparr>" okEnv] by simp

section \<open>Duration\<close>

text \<open>
  C4, as stated, fails where the exact difference leaves the 64-bit range: with
  end \<open>2 ^ 63 - 1\<close> and start \<open>- 1\<close> the run succeeds, the exact difference is
  \<open>2 ^ 63\<close>, and the duration returned is \<open>- 2 ^ 63\<close>.
\<close>

theorem Create_duration_counterexample:
  "snd (fst (Create okEnv wrapped)) = None \<and>
   sint (Duration (fst (fst (Create okEnv wrapped)))) = - 9223372036854775808 \<and>
   sint (EndTimestamp wrapped) - sint (StartTimestamp wrapped) = 9223372036854775808"
  by (simp add: Create_wrapped) (simp add: wrapped_def motion_def)

text \<open>
  C4, amended. The marker returned by \<^verbatim>\<open>Create\<close> has its duration equal to its end
  minus its start in 64-bit two's-complement arithmetic: the exact difference reduced to
  the signed 64-bit range, hence the exact difference whenever that fits. On success the
  start and end are those of the input. Nothing rejects a negative result.
\<close>

theorem Create_duration:
  assumes "Create env marker = ((r, eo), tr)"
  shows "Duration r = EndTimestamp r - StartTimestamp r \<and>
         sint (Duration r) = signed_take_bit 63 (sint (EndTimestamp r) - sint (StartTimestamp r)) \<and>
         (- (2 ^ 63) \<le> sint (EndTimestamp r) - sint (StartTimestamp r) \<and>
          sint (EndTimestamp r) - sint (StartTimestamp r) < 2 ^ 63 \<longrightarrow>
            sint (Duration r) = sint (EndTimestamp r) - sint (StartTimestamp r)) \<and>
         (eo = None \<longrightarrow>
            StartTimestamp r = StartTimestamp marker \<and> EndTimestamp r = EndTimestamp marker)"
proof -
  have d: "Duration r = EndTimestamp r - StartTimestamp r \<and>
        (eo = None \<longrightarrow>
            StartTimestamp r = StartTimestamp marker \<and> EndTimestamp r = EndTimestamp marker)"
  proof (cases eo)
    case None
    then show ?thesis using Create_success[of env marker r tr] assms by auto
  next
    case (Some e)
    then have "r = zeroMarker" using Create_cases[OF assms] by auto
    then show ?thesis using Some by (simp add: zeroMarker_def)
  qed
  have s: "sint (Duration r) = signed_take_bit 63 (sint (EndTimestamp r) - sint (StartTimestamp r))"
    using d by (simp add: sint_word_ariths)
  show ?thesis using d s by (simp add: signed_take_bit_int_eq_self)
qed

theorem Create_duration_witness:
  "snd (fst (Create okEnv late)) = None \<and>
   sint (Duration (fst (fst (Create okEnv late)))) = - 10 \<and>
   StartTimestamp (fst (fst (Create okEnv late))) = StartTimestamp late \<and>
   EndTimestamp (fst (fst (Create okEnv late))) = EndTimestamp late"
proof -
  note run = result_pair[OF Create_late]
  from Create_duration[OF run] show ?thesis by (simp add: Create_late)
qed

section \<open>Frame of a successful run\<close>

text \<open>
  C10. On a fully successful run the marker returned by \<^verbatim>\<open>Create\<close> is the input marker
  with two fields replaced: the identity, which is the one the store reported for the
  insert, and the duration. Name, timestamps, organisation, device and group identifiers
  and the tag, event and category lists are those of the input.
\<close>

theorem Create_frame:
  assumes "Create env marker = ((r, None), tr)"
  shows "r = marker\<lparr>Id_Marker := Id_Marker r,
                    Duration := EndTimestamp marker - StartTimestamp marker\<rparr> \<and>
         InsertOne env [] MARKERS_COLLECTION
           (marker\<lparr>Duration := EndTimestamp marker - StartTimestamp marker,
                   Id_Marker := NewObjectID env\<rparr>) = Inr (IdObject (Id_Marker r)) \<and>
         Name r = Name marker \<and> StartTimestamp r = StartTimestamp marker \<and>
         EndTimestamp r = EndTimestamp marker \<and> OrganisationId r = OrganisationId marker \<and>
         DeviceId r = DeviceId marker \<and> GroupId r = GroupId marker \<and>
         Tags r = Tags marker \<and> Events r = Events marker \<and> Categories r = Categories marker"
proof -
  from Create_success[OF assms] obtain oid where
    i: "InsertOne env [] MARKERS_COLLECTION
          (marker\<lparr>Duration := EndTimestamp marker - StartTimestamp marker,
                  Id_Marker := NewObjectID env\<rparr>) = Inr (IdObject oid)"
    and r: "r = marker\<lparr>Duration := EndTimestamp marker - StartTimestamp marker, Id_Marker := oid\<rparr>"
    by auto
  show ?thesis using i r by simp
qed

theorem Create_frame_witness:
  "snd (fst (Create okEnv alert)) = None \<and>
   Id_Marker (fst (fst (Create okEnv alert))) = [1, 2, 3, 4, 5, 6, 7, 8, 9, 10, 11, 12] \<and>
   Name (fst (fst (Create okEnv alert))) = Name alert \<and>
   Tags (fst (fst (Create okEnv alert))) = Tags alert \<and>
   Events (fst (fst (Create okEnv alert))) = Events alert \<and>
   Categories (fst (fst (Create okEnv alert))) = Categories alert"
proof -
  note run = result_pair[OF Create_okEnv_alert]
  from Create_frame[OF run] show ?thesis by (simp add: Create_okEnv_alert)
qed

section \<open>Failure after the marker is persisted\<close>

text \<open>
  C1, as stated, fails: on a store that accepts the marker and rejects the insert of the
  marker's range document, \<^verbatim>\<open>Create\<close> returns the wrapped error together with the
  zero-value marker, although the marker, the marker option and the range writes were
  issued.
\<close>

theorem Create_stage_failure_counterexample:
  "InsertOne (failEnv MARKER_OPTION_RANGES_COLLECTION) [] MARKERS_COLLECTION
     (motion\<lparr>Duration := 10, Id_Marker := [1, 2, 3, 4, 5, 6, 7, 8, 9, 10, 11, 12]\<rparr>)
     = Inr (IdObject [1, 2, 3, 4, 5, 6, 7, 8, 9, 10, 11, 12]) \<and>
   Name motion \<noteq> [] \<and>
   fst (Create (failEnv MARKER_OPTION_RANGES_COLLECTION) motion) =
     (zeroMarker, Some (Errorf ''failed to insert marker ranges'' (Driver ''write failed''))) \<and>
   map collectionOf (snd (Create (failEnv MARKER_OPTION_RANGES_COLLECTION) motion)) =
     [''markers'', ''marker_options'', ''marker_option_ranges'']"
  by (simp add: Create_failEnv_motion failEnv_fields) (simp add: collection_defs motion_def)

text \<open>
  C1, amended. Let the insert of the marker succeed with identity \<open>oid\<close>. Then
  \<^verbatim>\<open>AddMarkerToMongodb\<close> returns the persisted marker, the input with the identity
  \<open>oid\<close>, which is not the zero value for a named marker. If the store answers some write
  of the call with an error \<open>cause\<close>, that write is the last one issued, every write
  before it was accepted, and the error returned wraps \<open>cause\<close> under the message of
  the collection that write went to. \<^verbatim>\<open>Create\<close>, which calls with the duration set and
  no media identifier, returns the same error and writes, with the zero-value marker.
\<close>

theorem stage_failure_results:
  assumes ins: "InsertOne env [] MARKERS_COLLECTION (m\<lparr>Id_Marker := NewObjectID env\<rparr>)
                = Inr (IdObject oid)"
    and run: "AddMarkerToMongodb env m mediaIds = ((r, eo), tr)"
    and fail: "Some cause \<in> set (answers env [] tr)"
  shows "r = m\<lparr>Id_Marker := oid\<rparr> \<and>
         (Name m \<noteq> [] \<longrightarrow> r \<noteq> zeroMarker) \<and>
         last (answers env [] tr) = Some cause \<and>
         list_all (\<lambda>a. a = None) (butlast (answers env [] tr)) \<and>
         (\<exists>msg. eo = Some (Errorf msg cause) \<and>
                map_of stageMessages (collectionOf (last tr)) = Some msg) \<and>
         (\<forall>m0. Name m0 \<noteq> [] \<and>
               m = m0\<lparr>Duration := EndTimestamp m0 - StartTimestamp m0\<rparr> \<and> mediaIds = [] \<longrightarrow>
               Create env m0 = ((zeroMarker, eo), tr))"
proof -
  let ?ins = "OpInsertOne MARKERS_COLLECTION (m\<lparr>Id_Marker := NewObjectID env\<rparr>)"
  from AddMarker_run[OF ins run] obtain k ops where
    r: "r = m\<lparr>Id_Marker := oid\<rparr>"
    and tr: "tr = ?ins # concat (take k (stageOps m (Now env))) @ ops"
    and sem: "case eo of
          None \<Rightarrow> k = length (stageOps m (Now env)) \<and> ops = mediaPlan m mediaIds \<and>
            accepted env [?ins] (concat (take k (stageOps m (Now env))) @ ops)
        | Some e \<Rightarrow>
            (isInvalidReference e \<and> k = length (stageOps m (Now env)) \<and>
             accepted env [?ins] (concat (take k (stageOps m (Now env))) @ ops)) \<or>
            failedAt env [?ins] (concat (take k (stageOps m (Now env))) @ ops) e"
    by blast
  let ?rest = "concat (take k (stageOps m (Now env))) @ ops"
  have ans: "answers env [] tr = None # answers env [?ins] ?rest"
    unfolding tr using ins by (rule answers_inserted)
  then have inrest: "Some cause \<in> set (answers env [?ins] ?rest)" using fail by simp
  then have nacc: "\<not> accepted env [?ins] ?rest" by (auto simp: accepted_def list_all_iff)
  then obtain e where e: "eo = Some e" "failedAt env [?ins] ?rest e"
    using sem by (cases eo) auto
  from failedAt_answers[OF e(2)] obtain cause' msg where
    f: "?rest \<noteq> []" "list_all (\<lambda>a. a = None) (butlast (answers env [?ins] ?rest))"
       "last (answers env [?ins] ?rest) = Some cause'" "e = Errorf msg cause'"
       "map_of stageMessages (collectionOf (last ?rest)) = Some msg"
    by blast
  have c: "cause' = cause" using last_in_set_none[OF f(2) inrest] f(3) by simp
  have ne: "answers env [?ins] ?rest \<noteq> []" using inrest by auto
  have l: "last (answers env [] tr) = Some cause" using ans ne f(3) c by simp
  have b: "list_all (\<lambda>a. a = None) (butlast (answers env [] tr))" using ans ne f(2) by simp
  have lt: "last tr = last ?rest" unfolding tr using f(1) by (rule last_ConsR)
  have msg: "\<exists>msg. eo = Some (Errorf msg cause) \<and>
                map_of stageMessages (collectionOf (last tr)) = Some msg"
    using e(1) f(4,5) c lt by simp
  have nz: "r \<noteq> zeroMarker" if "Name m \<noteq> []"
  proof
    assume "r = zeroMarker"
    then have "Name r = []" by (simp add: zeroMarker_def)
    then show False using r that by simp
  qed
  have cr: "Create env m0 = ((zeroMarker, eo), tr)"
    if "Name m0 \<noteq> [] \<and> m = m0\<lparr>Duration := EndTimestamp m0 - StartTimestamp m0\<rparr> \<and> mediaIds = []"
    for m0
    using that run e(1) by (simp add: Create_def Let_def)
  show ?thesis using r nz l b msg cr by blast
qed

theorem stage_failure_results_witness:
  "fst (AddMarkerToMongodb (failEnv MARKER_OPTION_RANGES_COLLECTION) (motion\<lparr>Duration := 10\<rparr>) []) =
     (motion\<lparr>Duration := 10, Id_Marker := [1, 2, 3, 4, 5, 6, 7, 8, 9, 10, 11, 12]\<rparr>,
      Some (Errorf ''failed to insert marker ranges'' (Driver ''write failed''))) \<and>
   answers (failEnv MARKER_OPTION_RANGES_COLLECTION) []
     (snd (AddMarkerToMongodb (failEnv MARKER_OPTION_RANGES_COLLECTION) (motion\<lparr>Duration := 10\<rparr>) []))
     = [None, None, Some (Driver ''write failed'')] \<and>
   collectionOf (last
     (snd (AddMarkerToMongodb (failEnv MARKER_OPTION_RANGES_COLLECTION) (motion\<lparr>Duration := 10\<rparr>) [])))
     = ''marker_option_ranges'' \<and>
   Create (failEnv MARKER_OPTION_RANGES_COLLECTION) motion =
     ((zeroMarker, Some (Errorf ''failed to insert marker ranges'' (Driver ''write failed''))),
      snd (AddMarkerToMongodb (failEnv MARKER_OPTION_RANGES_COLLECTION) (motion\<lparr>Duration := 10\<rparr>) []))"
proof -
  let ?env = "failEnv MARKER_OPTION_RANGES_COLLECTION"
  let ?m = "motion\<lparr>Duration := 10\<rparr>"
  let ?tr = "snd (AddMarkerToMongodb ?env ?m [])"
  let ?e = "Errorf ''failed to insert marker ranges'' (Driver ''write failed'')"
  have ins: "InsertOne ?env [] MARKERS_COLLECTION (?m\<lparr>Id_Marker := NewObjectID ?env\<rparr>)
             = Inr (IdObject [1, 2, 3, 4, 5, 6, 7, 8, 9, 10, 11, 12])"
    by (simp add: failEnv_fields)
  have run: "AddMarkerToMongodb ?env ?m [] =
     ((motion\<lparr>Duration := 10, Id_Marker := [1, 2, 3, 4, 5, 6, 7, 8, 9, 10, 11, 12]\<rparr>, Some ?e), ?tr)"
    by (simp add: AddMarker_failEnv_motion)
  have ans: "answers ?env [] ?tr = [None, None, Some (Driver ''write failed'')]"
    unfolding AddMarker_failEnv_motion
    by (simp add: failEnv_store failEnv_fields collection_defs)
  then have fail: "Some (Driver ''write failed'') \<in> set (answers ?env [] ?tr)" by simp
  have m0: "Name motion \<noteq> [] \<and>
            ?m = motion\<lparr>Duration := EndTimestamp motion - StartTimestamp motion\<rparr> \<and>
            ([] :: string list) = []"
    by (simp add: motion_def)
  note th = stage_failure_results[OF ins run fail]
  from th have "\<forall>m0. Name m0 \<noteq> [] \<and>
               ?m = m0\<lparr>Duration := EndTimestamp m0 - StartTimestamp m0\<rparr> \<and> ([] :: string list) = [] \<longrightarrow>
               Create ?env m0 = ((zeroMarker, Some ?e), ?tr)"
    by blast
  then have cr: "Create ?env motion = ((zeroMarker, Some ?e), ?tr)" using m0 by blast
  have l: "collectionOf (last ?tr) = ''marker_option_ranges''"
    unfolding AddMarker_failEnv_motion by (simp add: collection_defs)
  have f: "fst (AddMarkerToMongodb ?env ?m []) =
     (motion\<lparr>Duration := 10, Id_Marker := [1, 2, 3, 4, 5, 6, 7, 8, 9, 10, 11, 12]\<rparr>, Some ?e)"
    by (simp add: AddMarker_failEnv_motion)
  show ?thesis using f ans l cr by (intro conjI)
qed

section \<open>Media identifiers and \<^verbatim>\<open>Create\<close>\<close>

text \<open>
  C2. \<^verbatim>\<open>Create\<close> has no parameter for media identifiers and calls
  \<^verbatim>\<open>AddMarkerToMongodb\<close> without any: for the marker \<open>alert\<close> it issues no update of
  a media document, while \<^verbatim>\<open>AddMarkerToMongodb\<close> given the identifier
  \<open>goodMediaId\<close> issues exactly one.
\<close>

theorem Create_links_no_media:
  "filter isUpdateOne (snd (Create okEnv alert)) = [] \<and>
   filter isUpdateOne (snd (AddMarkerToMongodb okEnv alert [goodMediaId])) =
     [OpUpdateOne MEDIA_COLLECTION (mediaFilter goodObjectId alert)
        (M [(''$addToSet'', M (updateDoc alert))])]"
  by (simp add: Create_okEnv[OF Name_alert] AddMarker_okEnv_good stageOps_def bulkOps_def
        insertOps_def batches_alert mediaOps_def updateDoc_alert)

section \<open>Order of the writes\<close>

text \<open>
  C7, as stated, fails: for the marker \<open>alert\<close> the range documents of the marker name
  are inserted before the tag catalog is written, and so on kind by kind; a catalog
  write follows a range write.
\<close>

theorem AddMarker_write_order_counterexample:
  "map collectionOf (snd (Create okEnv alert)) =
     [''markers'', ''marker_options'', ''marker_option_ranges'', ''marker_tag_options'',
      ''marker_tag_option_ranges'', ''marker_event_options'', ''marker_event_option_ranges'',
      ''marker_category_options''] \<and>
   \<not> catalogsBeforeRanges (snd (Create okEnv alert))"
  by (simp add: Create_okEnv[OF Name_alert] stageOps_def bulkOps_def insertOps_def batches_alert
        collection_defs)

text \<open>
  C7, amended. The writes of a call are the insert of the marker, then a prefix of the
  stage writes in the order marker options, marker ranges, tag options, tag ranges, event
  options, event ranges, category options (a stage with an empty batch has no write), then
  media updates, at most one per identifier. So catalogs come in the order marker name,
  tag, event, category, ranges in the order marker name, tag, event, each range write
  directly after the catalog write of its kind, and every media update after all of them.
  Every write but the last one was accepted by the store, so a failure ends the sequence;
  the prefix is the whole list unless the call returns an error, and also whenever the
  insert gave an identity and no write was refused; a media update is only issued after
  the whole list. A successful call issues every stage write and every media update, and
  all were accepted.
\<close>

theorem AddMarker_write_order:
  assumes run: "AddMarkerToMongodb env m mediaIds = ((r, eo), tr)"
  shows "subseq (map collectionOf tr)
           (MARKERS_COLLECTION # stageCollections @ replicate (length mediaIds) MEDIA_COLLECTION) \<and>
         (\<exists>k ops. k \<le> length (stageOps m (Now env)) \<and>
            tr = OpInsertOne MARKERS_COLLECTION (m\<lparr>Id_Marker := NewObjectID env\<rparr>)
                   # concat (take k (stageOps m (Now env))) @ ops \<and>
            list_all (\<lambda>x. isUpdateOne x \<and> collectionOf x = MEDIA_COLLECTION) ops \<and>
            length ops \<le> length mediaIds \<and>
            (k < length (stageOps m (Now env)) \<longrightarrow> ops = [] \<and> eo \<noteq> None) \<and>
            ((\<exists>oid. InsertOne env [] MARKERS_COLLECTION (m\<lparr>Id_Marker := NewObjectID env\<rparr>)
                      = Inr (IdObject oid)) \<and>
             list_all (\<lambda>a. a = None) (answers env [] tr) \<longrightarrow>
               k = length (stageOps m (Now env))) \<and>
            (eo = None \<longrightarrow> ops = mediaPlan m mediaIds)) \<and>
         list_all (\<lambda>a. a = None) (butlast (answers env [] tr)) \<and>
         (eo = None \<longrightarrow>
            list_all (\<lambda>a. a = None) (answers env [] tr) \<and>
            (\<exists>ops. tr = OpInsertOne MARKERS_COLLECTION (m\<lparr>Id_Marker := NewObjectID env\<rparr>)
                           # concat (stageOps m (Now env)) @ ops \<and>
                   list_all isUpdateOne ops))"
proof -
  let ?ins = "OpInsertOne MARKERS_COLLECTION (m\<lparr>Id_Marker := NewObjectID env\<rparr>)"
  let ?S = "stageOps m (Now env)"
  have "\<exists>k ops. k \<le> length ?S \<and> tr = ?ins # concat (take k ?S) @ ops \<and>
            (\<forall>x\<in>set ops. isUpdateOne x \<and> collectionOf x = MEDIA_COLLECTION) \<and>
            length ops \<le> length mediaIds \<and>
            (k < length ?S \<longrightarrow> ops = [] \<and> eo \<noteq> None) \<and>
            ((\<exists>oid. InsertOne env [] MARKERS_COLLECTION (m\<lparr>Id_Marker := NewObjectID env\<rparr>)
                      = Inr (IdObject oid)) \<and>
             list_all (\<lambda>a. a = None) (answers env [] tr) \<longrightarrow> k = length ?S) \<and>
            (eo = None \<longrightarrow> ops = mediaPlan m mediaIds \<and> k = length ?S) \<and>
            list_all (\<lambda>a. a = None) (butlast (answers env [] tr)) \<and>
            (eo = None \<longrightarrow> list_all (\<lambda>a. a = None) (answers env [] tr))"
  proof (cases "\<exists>oid. InsertOne env [] MARKERS_COLLECTION (m\<lparr>Id_Marker := NewObjectID env\<rparr>)
                 = Inr (IdObject oid)")
    case False
    then have "\<forall>oid. InsertOne env [] MARKERS_COLLECTION (m\<lparr>Id_Marker := NewObjectID env\<rparr>)
                 \<noteq> Inr (IdObject oid)" by simp
    from AddMarker_not_inserted[OF this, of mediaIds] run
    have t: "tr = [?ins]" and e: "eo \<noteq> None" by auto
    have b: "list_all (\<lambda>a. a = None) (butlast (answers env [] tr))" using t by simp
    show ?thesis
      apply (rule exI[of _ 0])
      apply (rule exI[of _ "[]"])
      using t e b False by auto
  next
    case True
    then obtain oid where
      ins: "InsertOne env [] MARKERS_COLLECTION (m\<lparr>Id_Marker := NewObjectID env\<rparr>)
            = Inr (IdObject oid)" by blast
    from AddMarker_run[OF ins run] obtain k ops where
      k: "k \<le> length ?S" and tr: "tr = ?ins # concat (take k ?S) @ ops"
      and len: "length ops \<le> length mediaIds"
      and med: "\<forall>x\<in>set ops. isUpdateOne x \<and> collectionOf x = MEDIA_COLLECTION"
      and early: "k < length ?S \<longrightarrow> ops = []"
      and sem: "case eo of
          None \<Rightarrow> k = length ?S \<and> ops = mediaPlan m mediaIds \<and>
            accepted env [?ins] (concat (take k ?S) @ ops)
        | Some e \<Rightarrow>
            (isInvalidReference e \<and> k = length ?S \<and>
             accepted env [?ins] (concat (take k ?S) @ ops)) \<or>
            failedAt env [?ins] (concat (take k ?S) @ ops) e"
      by blast
    define rest where "rest = concat (take k ?S) @ ops"
    have tr': "tr = ?ins # rest" using tr by (simp add: rest_def)
    have sem': "case eo of
          None \<Rightarrow> k = length ?S \<and> ops = mediaPlan m mediaIds \<and> accepted env [?ins] rest
        | Some e \<Rightarrow> (isInvalidReference e \<and> k = length ?S \<and> accepted env [?ins] rest) \<or>
                    failedAt env [?ins] rest e"
      unfolding rest_def by (rule sem)
    have ans: "answers env [] tr = None # answers env [?ins] rest"
      unfolding tr' using ins by (rule answers_inserted)
    have bl: "list_all (\<lambda>a. a = None) (butlast (answers env [?ins] rest))"
    proof (cases eo)
      case None
      then have "accepted env [?ins] rest" using sem' by simp
      then show ?thesis by (rule accepted_butlast)
    next
      case (Some e)
      then have "accepted env [?ins] rest \<or> failedAt env [?ins] rest e" using sem' by auto
      then show ?thesis
      proof
        assume "accepted env [?ins] rest"
        then show ?thesis by (rule accepted_butlast)
      next
        assume "failedAt env [?ins] rest e"
        from failedAt_answers[OF this] show ?thesis by blast
      qed
    qed
    have b: "list_all (\<lambda>a. a = None) (butlast (answers env [] tr))"
      using ans bl by (cases "answers env [?ins] rest = []") simp_all
    have full: "k = length ?S" if "list_all (\<lambda>a. a = None) (answers env [] tr)"
    proof -
      have acc: "accepted env [?ins] rest" using that ans by (simp add: accepted_def)
      show ?thesis
      proof (cases eo)
        case None
        then show ?thesis using sem' by simp
      next
        case (Some e)
        then show ?thesis using sem' acc failedAt_not_accepted[of env "[?ins]" rest e] by auto
      qed
    qed
    have s: "eo = None \<longrightarrow> list_all (\<lambda>a. a = None) (answers env [] tr) \<and>
               ops = mediaPlan m mediaIds \<and> k = length ?S"
    proof
      assume n: "eo = None"
      then have "k = length ?S \<and> ops = mediaPlan m mediaIds \<and> accepted env [?ins] rest"
        using sem' by simp
      then show "list_all (\<lambda>a. a = None) (answers env [] tr) \<and>
               ops = mediaPlan m mediaIds \<and> k = length ?S"
        using ans by (simp add: accepted_def)
    qed
    have e: "k < length ?S \<longrightarrow> ops = [] \<and> eo \<noteq> None" using early s by auto
    have fullI: "(\<exists>oid. InsertOne env [] MARKERS_COLLECTION (m\<lparr>Id_Marker := NewObjectID env\<rparr>)
                      = Inr (IdObject oid)) \<and>
             list_all (\<lambda>a. a = None) (answers env [] tr) \<longrightarrow> k = length ?S"
      using full by blast
    have succ: "eo = None \<longrightarrow> ops = mediaPlan m mediaIds \<and> k = length ?S"
      and acc: "eo = None \<longrightarrow> list_all (\<lambda>a. a = None) (answers env [] tr)"
      using s by blast+
    show ?thesis
      by (intro exI[of _ k] exI[of _ ops] conjI; fact k tr med len e fullI succ b acc)
  qed
  then obtain k ops where
    k: "k \<le> length ?S" and tr: "tr = ?ins # concat (take k ?S) @ ops"
    and med: "\<forall>x\<in>set ops. isUpdateOne x \<and> collectionOf x = MEDIA_COLLECTION"
    and len: "length ops \<le> length mediaIds"
    and early: "k < length ?S \<longrightarrow> ops = [] \<and> eo \<noteq> None"
    and full: "(\<exists>oid. InsertOne env [] MARKERS_COLLECTION (m\<lparr>Id_Marker := NewObjectID env\<rparr>)
                      = Inr (IdObject oid)) \<and>
             list_all (\<lambda>a. a = None) (answers env [] tr) \<longrightarrow> k = length ?S"
    and succ: "eo = None \<longrightarrow> ops = mediaPlan m mediaIds \<and> k = length ?S"
    and b: "list_all (\<lambda>a. a = None) (butlast (answers env [] tr))"
    and acc: "eo = None \<longrightarrow> list_all (\<lambda>a. a = None) (answers env [] tr)"
    by blast
  have "subseq (map collectionOf (concat (take k ?S)) @ map collectionOf ops)
          (stageCollections @ replicate (length mediaIds) MEDIA_COLLECTION)"
    using stageOps_subseq media_subseq[OF len med] by (rule list_emb_append_mono)
  then have a: "subseq (map collectionOf tr)
           (MARKERS_COLLECTION # stageCollections @ replicate (length mediaIds) MEDIA_COLLECTION)"
    using tr by simp
  have c: "eo = None \<longrightarrow>
            list_all (\<lambda>a. a = None) (answers env [] tr) \<and>
            (\<exists>ops. tr = ?ins # concat ?S @ ops \<and> list_all isUpdateOne ops)"
  proof
    assume n: "eo = None"
    then have "tr = ?ins # concat ?S @ ops \<and> list_all isUpdateOne ops"
      using tr med succ by (simp add: list_all_iff)
    then show "list_all (\<lambda>a. a = None) (answers env [] tr) \<and>
            (\<exists>ops. tr = ?ins # concat ?S @ ops \<and> list_all isUpdateOne ops)"
      using acc n by blast
  qed
  have d: "\<exists>k ops. k \<le> length ?S \<and> tr = ?ins # concat (take k ?S) @ ops \<and>
            list_all (\<lambda>x. isUpdateOne x \<and> collectionOf x = MEDIA_COLLECTION) ops \<and>
            length ops \<le> length mediaIds \<and>
            (k < length ?S \<longrightarrow> ops = [] \<and> eo \<noteq> None) \<and>
            ((\<exists>oid. InsertOne env [] MARKERS_COLLECTION (m\<lparr>Id_Marker := NewObjectID env\<rparr>)
                      = Inr (IdObject oid)) \<and>
             list_all (\<lambda>a. a = None) (answers env [] tr) \<longrightarrow> k = length ?S) \<and>
            (eo = None \<longrightarrow> ops = mediaPlan m mediaIds)"
  proof -
    have med': "list_all (\<lambda>x. isUpdateOne x \<and> collectionOf x = MEDIA_COLLECTION) ops"
      using med by (simp add: list_all_iff)
    have succ': "eo = None \<longrightarrow> ops = mediaPlan m mediaIds" using succ by simp
    show ?thesis
      by (intro exI[of _ k] exI[of _ ops] conjI; fact k tr med' len early full succ')
  qed
  from a d b c show ?thesis by (intro conjI)
qed

theorem AddMarker_write_order_witness:
  "snd (fst (AddMarkerToMongodb okEnv alert [goodMediaId])) = None \<and>
   subseq (map collectionOf (snd (AddMarkerToMongodb okEnv alert [goodMediaId])))
     (MARKERS_COLLECTION # stageCollections @ replicate (length [goodMediaId]) MEDIA_COLLECTION) \<and>
   map collectionOf (snd (AddMarkerToMongodb okEnv alert [goodMediaId])) =
     [''markers'', ''marker_options'', ''marker_option_ranges'', ''marker_tag_options'',
      ''marker_tag_option_ranges'', ''marker_event_options'', ''marker_event_option_ranges'',
      ''marker_category_options'', ''media''] \<and>
   list_all (\<lambda>a. a = None) (answers okEnv [] (snd (AddMarkerToMongodb okEnv alert [goodMediaId])))"
proof -
  have c: "map collectionOf (snd (AddMarkerToMongodb okEnv alert [goodMediaId])) =
     [''markers'', ''marker_options'', ''marker_option_ranges'', ''marker_tag_options'',
      ''marker_tag_option_ranges'', ''marker_event_options'', ''marker_event_option_ranges'',
      ''marker_category_options'', ''media'']"
    by (simp add: AddMarker_okEnv_good stageOps_def bulkOps_def insertOps_def batches_alert
          mediaOps_def updateDoc_alert collection_defs)
  have n: "snd (fst (AddMarkerToMongodb okEnv alert [goodMediaId])) = None"
    by (simp add: AddMarker_okEnv_good)
  have run: "AddMarkerToMongodb okEnv alert [goodMediaId] =
          ((fst (fst (AddMarkerToMongodb okEnv alert [goodMediaId])), None),
           snd (AddMarkerToMongodb okEnv alert [goodMediaId]))"
    by (simp add: AddMarker_okEnv_good)
  note th = AddMarker_write_order[OF run]
  have s: "subseq (map collectionOf (snd (AddMarkerToMongodb okEnv alert [goodMediaId])))
     (MARKERS_COLLECTION # stageCollections @ replicate (length [goodMediaId]) MEDIA_COLLECTION)"
    using th by (rule conjunct1)
  have a: "list_all (\<lambda>a. a = None)
             (answers okEnv [] (snd (AddMarkerToMongodb okEnv alert [goodMediaId])))"
    using th[THEN conjunct2, THEN conjunct2, THEN conjunct2] by simp
  show ?thesis using n s c a by (intro conjI)
qed

section \<open>Option catalogs\<close>

text \<open>
  Each catalog batch holds one upsert per distinct non-empty name of its kind, in the
  order of first occurrence, filtered by value and organisation identifier and with the
  upsert flag set. Only the upsert of the marker name carries \<^verbatim>\<open>$addToSet\<close> on
  \<^verbatim>\<open>categories\<close>; its \<^verbatim>\<open>$each\<close> is the slice of the non-empty category names, which
  is nil when there is none. A stage whose batch is empty writes nothing, and a
  successful call issues as bulk writes exactly the non-empty batches.
\<close>

lemma catalog_batches:
  "markerOptUpserts marker now =
     map (\<lambda>v. markerOptionUpsert v (OrganisationId marker) now
                 (filter (\<lambda>n. n \<noteq> []) (map Name_Category (Categories marker))))
       (distinctNames [Name marker]) \<and>
   tagOptUpserts marker now =
     map (\<lambda>v. optionUpsert v (OrganisationId marker) now)
       (distinctNames (map Name_Tag (Tags marker))) \<and>
   eventOptUpserts marker now =
     map (\<lambda>v. optionUpsert v (OrganisationId marker) now)
       (distinctNames (map Name_Event (Events marker))) \<and>
   categoryOptUpserts marker now =
     map (\<lambda>v. optionUpsert v (OrganisationId marker) now)
       (distinctNames (map Name_Category (Categories marker))) \<and>
   distinct (distinctNames ns) \<and>
   set (distinctNames ns) = {n \<in> set ns. n \<noteq> []} \<and>
   Filter (optionUpsert v org now) = M [(''value'', String v), (''organisationId'', String org)] \<and>
   Filter (markerOptionUpsert v org now cs) =
     M [(''value'', String v), (''organisationId'', String org)] \<and>
   Upsert (optionUpsert v org now) = Some True \<and>
   Upsert (markerOptionUpsert v org now cs) = Some True \<and>
   field (Update (optionUpsert v org now)) ''$addToSet'' = None \<and>
   field (Update (markerOptionUpsert v org now cs)) ''$addToSet'' =
     Some (M [(''categories'', M [(''$each'', StringSlice cs)])]) \<and>
   bulkWriteStage env col msg [] tr0 = (None, tr0) \<and>
   (AddMarkerToMongodb env marker mediaIds = ((r, None), tr) \<longrightarrow>
      filter isBulkWrite tr =
        bulkOps MARKER_OPTIONS_COLLECTION (markerOptUpserts marker (Now env)) @
        bulkOps MARKER_TAG_OPTIONS_COLLECTION (tagOptUpserts marker (Now env)) @
        bulkOps MARKER_EVENT_OPTIONS_COLLECTION (eventOptUpserts marker (Now env)) @
        bulkOps MARKER_CATEGORY_OPTIONS_COLLECTION (categoryOptUpserts marker (Now env)))"
proof -
  have m: "markerOptUpserts marker now =
     map (\<lambda>v. markerOptionUpsert v (OrganisationId marker) now
                 (filter (\<lambda>n. n \<noteq> []) (map Name_Category (Categories marker))))
       (distinctNames [Name marker])"
    by (simp add: markerOptUpserts_def markerBlock_eq categoryNames_eq distinctNames_single)
  have t: "tagOptUpserts marker now =
     map (\<lambda>v. optionUpsert v (OrganisationId marker) now)
       (distinctNames (map Name_Tag (Tags marker)))"
    by (simp add: tagOptUpserts_def tagsLoop_eq distinctNames_def)
  have e: "eventOptUpserts marker now =
     map (\<lambda>v. optionUpsert v (OrganisationId marker) now)
       (distinctNames (map Name_Event (Events marker)))"
    by (simp add: eventOptUpserts_def eventsLoop_eq distinctNames_def)
  have c: "categoryOptUpserts marker now =
     map (\<lambda>v. optionUpsert v (OrganisationId marker) now)
       (distinctNames (map Name_Category (Categories marker)))"
    by (simp add: categoryOptUpserts_def categoriesLoop_eq distinctNames_def)
  have d: "distinct (distinctNames ns)" "set (distinctNames ns) = {n \<in> set ns. n \<noteq> []}"
    by (simp_all add: distinctNames_def distinct_freshNames set_freshNames)
  have u: "Filter (optionUpsert v org now) = M [(''value'', String v), (''organisationId'', String org)]"
    "Filter (markerOptionUpsert v org now cs) =
       M [(''value'', String v), (''organisationId'', String org)]"
    "Upsert (optionUpsert v org now) = Some True"
    "Upsert (markerOptionUpsert v org now cs) = Some True"
    "field (Update (optionUpsert v org now)) ''$addToSet'' = None"
    "field (Update (markerOptionUpsert v org now cs)) ''$addToSet'' =
       Some (M [(''categories'', M [(''$each'', StringSlice cs)])])"
    by (simp_all add: optionUpsert_def markerOptionUpsert_def)
  have s: "bulkWriteStage env col msg [] tr0 = (None, tr0)"
    by (simp add: bulkWriteStage_def)
  show ?thesis using m t e c d u s AddMarker_success_trace(1)[of env marker mediaIds r tr]
    by blast
qed

text \<open>
  C5. For the marker \<open>motion\<close>, which has no category, the upsert of the marker name
  that \<^verbatim>\<open>Create\<close> sends to the marker options carries \<^verbatim>\<open>$addToSet\<close> on
  \<^verbatim>\<open>categories\<close> with \<^verbatim>\<open>$each\<close> null, not an array of names.
\<close>

theorem marker_upsert_nil_categories:
  "markerOptUpserts motion 1700000000 =
     [\<lparr> Filter = M [(''value'', String ''Motion''), (''organisationId'', String ''A'')],
        Update = M [
          (''$setOnInsert'', M [(''value'', String ''Motion''), (''text'', String ''Motion''),
                                (''organisationId'', String ''A''),
                                (''createdAt'', Int64 1700000000)]),
          (''$set'', M [(''updatedAt'', Int64 1700000000)]),
          (''$addToSet'', M [(''categories'', M [(''$each'', Null)])])],
        Upsert = Some True \<rparr>] \<and>
   OpBulkWrite MARKER_OPTIONS_COLLECTION (markerOptUpserts motion 1700000000)
     \<in> set (snd (Create okEnv motion))"
proof -
  have u: "markerOptUpserts motion 1700000000 =
     [\<lparr> Filter = M [(''value'', String ''Motion''), (''organisationId'', String ''A'')],
        Update = M [
          (''$setOnInsert'', M [(''value'', String ''Motion''), (''text'', String ''Motion''),
                                (''organisationId'', String ''A''),
                                (''createdAt'', Int64 1700000000)]),
          (''$set'', M [(''updatedAt'', Int64 1700000000)]),
          (''$addToSet'', M [(''categories'', M [(''$each'', Null)])])],
        Upsert = Some True \<rparr>]"
    by (simp add: markerOptUpserts_def markerBlock_eq markerOptionUpsert_def StringSlice_def
          motion_def)
  have "OpBulkWrite MARKER_OPTIONS_COLLECTION (markerOptUpserts motion 1700000000)
     \<in> set (snd (Create okEnv motion))"
    by (simp add: Create_okEnv[OF Name_motion] stageOps_def bulkOps_def batches_motion)
  then show ?thesis using u by simp
qed

section \<open>Range documents\<close>

text \<open>
  C6, as stated, fails for events: the range document of the event \<open>door\<close> of the
  marker \<open>alert\<close>, as inserted by \<^verbatim>\<open>Create\<close>, has a ninth attribute
  \<^verbatim>\<open>updatedAt\<close> besides the eight listed.
\<close>

theorem range_documents_counterexample:
  "eventRangeDocs alert 1700000000 =
     [M [(''value'', String ''door''), (''text'', String ''door''),
         (''organisationId'', String ''A''), (''start'', Int64 103), (''end'', Int64 105),
         (''deviceId'', String ''cam''), (''groupId'', String ''grp''),
         (''createdAt'', Int64 1700000000), (''updatedAt'', Int64 1700000000)]] \<and>
   OpInsertMany MARKER_EVENT_OPTION_RANGES_COLLECTION (eventRangeDocs alert 1700000000)
     \<in> set (snd (Create okEnv alert)) \<and>
   keys (hd (eventRangeDocs alert 1700000000)) \<noteq>
     [''value'', ''text'', ''organisationId'', ''start'', ''end'', ''deviceId'', ''groupId'',
      ''createdAt'']"
proof -
  have e: "eventRangeDocs alert 1700000000 =
     [M [(''value'', String ''door''), (''text'', String ''door''),
         (''organisationId'', String ''A''), (''start'', Int64 103), (''end'', Int64 105),
         (''deviceId'', String ''cam''), (''groupId'', String ''grp''),
         (''createdAt'', Int64 1700000000), (''updatedAt'', Int64 1700000000)]]"
    by (simp add: eventRangeDocs_def eventsLoop_eq eventRangeDoc_def alert_def)
  have "OpInsertMany MARKER_EVENT_OPTION_RANGES_COLLECTION (eventRangeDocs alert 1700000000)
     \<in> set (snd (Create okEnv alert))"
    by (simp add: Create_okEnv[OF Name_alert] stageOps_def insertOps_def batches_alert)
  then show ?thesis by (simp add: e)
qed

text \<open>
  C6, amended. The range batches hold one document per occurrence of a non-empty name,
  in order and without deduplication: one for a non-empty marker name, one per tag with a
  non-empty name, one per event with a non-empty name. Marker and tag documents carry the
  marker's start and end, event documents the event's own. Marker and tag documents have
  exactly the attributes value, text, organisationId, start, end, deviceId, groupId and
  createdAt; event documents have these and updatedAt. A successful call issues as
  inserts exactly the non-empty batches, in the order marker name, tag, event.
\<close>

theorem range_documents:
  "markerRangeDocs marker now =
     (if Name marker \<noteq> [] then
        [rangeDoc (Name marker) (OrganisationId marker) (StartTimestamp marker)
           (EndTimestamp marker) (DeviceId marker) (GroupId marker) now]
      else []) \<and>
   tagRangeDocs marker now =
     map (\<lambda>t. rangeDoc (Name_Tag t) (OrganisationId marker) (StartTimestamp marker)
                 (EndTimestamp marker) (DeviceId marker) (GroupId marker) now)
       (filter (\<lambda>t. Name_Tag t \<noteq> []) (Tags marker)) \<and>
   eventRangeDocs marker now =
     map (\<lambda>e. eventRangeDoc (Name_Event e) (OrganisationId marker) (StartTimestamp_Event e)
                 (EndTimestamp_Event e) (DeviceId marker) (GroupId marker) now)
       (filter (\<lambda>e. Name_Event e \<noteq> []) (Events marker)) \<and>
   rangeDoc v org s e dev grp now =
     M [(''value'', String v), (''text'', String v), (''organisationId'', String org),
        (''start'', Int64 s), (''end'', Int64 e), (''deviceId'', String dev),
        (''groupId'', String grp), (''createdAt'', Int64 now)] \<and>
   eventRangeDoc v org s e dev grp now =
     M [(''value'', String v), (''text'', String v), (''organisationId'', String org),
        (''start'', Int64 s), (''end'', Int64 e), (''deviceId'', String dev),
        (''groupId'', String grp), (''createdAt'', Int64 now), (''updatedAt'', Int64 now)] \<and>
   keys (rangeDoc v org s e dev grp now) =
     [''value'', ''text'', ''organisationId'', ''start'', ''end'', ''deviceId'', ''groupId'',
      ''createdAt''] \<and>
   keys (eventRangeDoc v org s e dev grp now) =
     [''value'', ''text'', ''organisationId'', ''start'', ''end'', ''deviceId'', ''groupId'',
      ''createdAt'', ''updatedAt''] \<and>
   (AddMarkerToMongodb env marker mediaIds = ((r, None), tr) \<longrightarrow>
      filter isInsertMany tr =
        insertOps MARKER_OPTION_RANGES_COLLECTION (markerRangeDocs marker (Now env)) @
        insertOps MARKER_TAG_OPTION_RANGES_COLLECTION (tagRangeDocs marker (Now env)) @
        insertOps MARKER_EVENT_OPTION_RANGES_COLLECTION (eventRangeDocs marker (Now env)))"
proof -
  have m: "markerRangeDocs marker now =
     (if Name marker \<noteq> [] then
        [rangeDoc (Name marker) (OrganisationId marker) (StartTimestamp marker)
           (EndTimestamp marker) (DeviceId marker) (GroupId marker) now]
      else [])"
    by (simp add: markerRangeDocs_def markerBlock_eq)
  have t: "tagRangeDocs marker now =
     map (\<lambda>t. rangeDoc (Name_Tag t) (OrganisationId marker) (StartTimestamp marker)
                 (EndTimestamp marker) (DeviceId marker) (GroupId marker) now)
       (filter (\<lambda>t. Name_Tag t \<noteq> []) (Tags marker))"
    by (simp add: tagRangeDocs_def tagsLoop_eq)
  have ev: "eventRangeDocs marker now =
     map (\<lambda>e. eventRangeDoc (Name_Event e) (OrganisationId marker) (StartTimestamp_Event e)
                 (EndTimestamp_Event e) (DeviceId marker) (GroupId marker) now)
       (filter (\<lambda>e. Name_Event e \<noteq> []) (Events marker))"
    by (simp add: eventRangeDocs_def eventsLoop_eq)
  have d: "rangeDoc v org s e dev grp now =
     M [(''value'', String v), (''text'', String v), (''organisationId'', String org),
        (''start'', Int64 s), (''end'', Int64 e), (''deviceId'', String dev),
        (''groupId'', String grp), (''createdAt'', Int64 now)]"
    "eventRangeDoc v org s e dev grp now =
     M [(''value'', String v), (''text'', String v), (''organisationId'', String org),
        (''start'', Int64 s), (''end'', Int64 e), (''deviceId'', String dev),
        (''groupId'', String grp), (''createdAt'', Int64 now), (''updatedAt'', Int64 now)]"
    by (simp_all add: rangeDoc_def eventRangeDoc_def)
  have k: "keys (rangeDoc v org s e dev grp now) =
     [''value'', ''text'', ''organisationId'', ''start'', ''end'', ''deviceId'', ''groupId'',
      ''createdAt'']"
    "keys (eventRangeDoc v org s e dev grp now) =
     [''value'', ''text'', ''organisationId'', ''start'', ''end'', ''deviceId'', ''groupId'',
      ''createdAt'', ''updatedAt'']"
    by (simp_all add: d)
  show ?thesis using m t ev d k AddMarker_success_trace(2)[of env marker mediaIds r tr]
    by blast
qed

theorem range_documents_witness:
  "tagRangeDocs alert 1700000000 =
     [rangeDoc ''high-priority'' ''A'' 100 110 ''cam'' ''grp'' 1700000000,
      rangeDoc ''high-priority'' ''A'' 100 110 ''cam'' ''grp'' 1700000000] \<and>
   eventRangeDocs alert 1700000000 =
     [eventRangeDoc ''door'' ''A'' 103 105 ''cam'' ''grp'' 1700000000] \<and>
   filter isInsertMany (snd (AddMarkerToMongodb okEnv alert [goodMediaId])) =
     [OpInsertMany MARKER_OPTION_RANGES_COLLECTION
        [rangeDoc ''Alert'' ''A'' 100 110 ''cam'' ''grp'' 1700000000],
      OpInsertMany MARKER_TAG_OPTION_RANGES_COLLECTION
        [rangeDoc ''high-priority'' ''A'' 100 110 ''cam'' ''grp'' 1700000000,
         rangeDoc ''high-priority'' ''A'' 100 110 ''cam'' ''grp'' 1700000000],
      OpInsertMany MARKER_EVENT_OPTION_RANGES_COLLECTION
        [eventRangeDoc ''door'' ''A'' 103 105 ''cam'' ''grp'' 1700000000]]"
proof -
  have run: "AddMarkerToMongodb okEnv alert [goodMediaId] =
          ((fst (fst (AddMarkerToMongodb okEnv alert [goodMediaId])), None),
           snd (AddMarkerToMongodb okEnv alert [goodMediaId]))"
    by (simp add: AddMarker_okEnv_good)
  have n: "Name alert = ''Alert''" "OrganisationId alert = ''A''" "StartTimestamp alert = 100"
    "EndTimestamp alert = 110" "DeviceId alert = ''cam''" "GroupId alert = ''grp''"
    "filter (\<lambda>t. Name_Tag t \<noteq> []) (Tags alert) =
       [\<lparr>Name_Tag = ''high-priority''\<rparr>, \<lparr>Name_Tag = ''high-priority''\<rparr>]"
    "filter (\<lambda>e. Name_Event e \<noteq> []) (Events alert) =
       [\<lparr>Name_Event = ''door'', StartTimestamp_Event = 103, EndTimestamp_Event = 105\<rparr>]"
    by (simp_all add: alert_def)
  from range_documents[where marker = alert and now = 1700000000 and env = okEnv
         and mediaIds = "[goodMediaId]"
         and r = "fst (fst (AddMarkerToMongodb okEnv alert [goodMediaId]))"
         and tr = "snd (AddMarkerToMongodb okEnv alert [goodMediaId])"] run
  have "tagRangeDocs alert 1700000000 =
     map (\<lambda>t. rangeDoc (Name_Tag t) (OrganisationId alert) (StartTimestamp alert)
                 (EndTimestamp alert) (DeviceId alert) (GroupId alert) 1700000000)
       (filter (\<lambda>t. Name_Tag t \<noteq> []) (Tags alert))"
    and "eventRangeDocs alert 1700000000 =
     map (\<lambda>e. eventRangeDoc (Name_Event e) (OrganisationId alert) (StartTimestamp_Event e)
                 (EndTimestamp_Event e) (DeviceId alert) (GroupId alert) 1700000000)
       (filter (\<lambda>e. Name_Event e \<noteq> []) (Events alert))"
    and "markerRangeDocs alert 1700000000 =
     (if Name alert \<noteq> [] then
        [rangeDoc (Name alert) (OrganisationId alert) (StartTimestamp alert)
           (EndTimestamp alert) (DeviceId alert) (GroupId alert) 1700000000]
      else [])"
    and "filter isInsertMany (snd (AddMarkerToMongodb okEnv alert [goodMediaId])) =
        insertOps MARKER_OPTION_RANGES_COLLECTION (markerRangeDocs alert (Now okEnv)) @
        insertOps MARKER_TAG_OPTION_RANGES_COLLECTION (tagRangeDocs alert (Now okEnv)) @
        insertOps MARKER_EVENT_OPTION_RANGES_COLLECTION (eventRangeDocs alert (Now okEnv))"
    by blast+
  then show ?thesis by (simp add: n okEnv_fields insertOps_def)
qed

section \<open>Media linking\<close>

text \<open>
  C8. For a non-empty media identifier that parses to \<open>oid\<close>, the loop runs the linking
  step for \<open>oid\<close> and goes on to the rest only if that step returns no error. The step
  issues nothing when the marker name is empty and every tag and event name is empty;
  otherwise it issues exactly one update of the media collection, \<^verbatim>\<open>$addToSet\<close> of the
  name lists, under a filter on the identifier, on \<^verbatim>\<open>startTimestamp\<close> at most the
  marker's start and on \<^verbatim>\<open>endTimestamp\<close> at least the marker's start. A media
  document satisfies the filter exactly when it has that identifier and its range
  contains the marker's start. An answer of the store with zero matched documents is not
  an error.
\<close>

theorem media_linker:
  assumes "mediaId \<noteq> []" and "ObjectIDFromHex mediaId = Inr oid"
  shows "linkMedia env marker (mediaId # rest) tr =
           (case linkOne env marker oid tr of
              (Some e, t) \<Rightarrow> (Some e, t)
            | (None, t) \<Rightarrow> linkMedia env marker rest t) \<and>
         linkOne env marker oid tr =
           (if Name marker = [] \<and> list_all (\<lambda>t. Name_Tag t = []) (Tags marker) \<and>
               list_all (\<lambda>e. Name_Event e = []) (Events marker)
            then (None, tr)
            else
              (case UpdateOne env tr MEDIA_COLLECTION (mediaFilter oid marker)
                      (M [(''$addToSet'', M (updateDoc marker))]) of
                 Inl err \<Rightarrow>
                   (Some (Errorf ''failed to update media with marker data'' err),
                    tr @ [OpUpdateOne MEDIA_COLLECTION (mediaFilter oid marker)
                            (M [(''$addToSet'', M (updateDoc marker))])])
               | Inr matched \<Rightarrow>
                   (None,
                    tr @ [OpUpdateOne MEDIA_COLLECTION (mediaFilter oid marker)
                            (M [(''$addToSet'', M (updateDoc marker))])]))) \<and>
         (UpdateOne env tr MEDIA_COLLECTION (mediaFilter oid marker)
            (M [(''$addToSet'', M (updateDoc marker))]) = Inr 0 \<longrightarrow>
          fst (linkOne env marker oid tr) = None) \<and>
         mediaFilter oid marker =
           M [(''_id'', ObjectId oid),
              (''startTimestamp'', M [(''$lte'', Int64 (StartTimestamp marker))]),
              (''endTimestamp'', M [(''$gte'', Int64 (StartTimestamp marker))])] \<and>
         (matchesFilter (mediaFilter oid marker) d \<longleftrightarrow>
            Id_Media d = oid \<and> sint (StartTimestamp_Media d) \<le> sint (StartTimestamp marker) \<and>
            sint (StartTimestamp marker) \<le> sint (EndTimestamp_Media d)) \<and>
         updateDoc marker =
           (if Name marker \<noteq> [] then [(''markerNames'', M [(''$each'', Strings [Name marker])])]
            else []) @
           (if filter (\<lambda>n. n \<noteq> []) (map Name_Tag (Tags marker)) \<noteq> [] then
              [(''tagNames'',
                M [(''$each'', Strings (filter (\<lambda>n. n \<noteq> []) (map Name_Tag (Tags marker))))])]
            else []) @
           (if filter (\<lambda>n. n \<noteq> []) (map Name_Event (Events marker)) \<noteq> [] then
              [(''eventNames'',
                M [(''$each'', Strings (filter (\<lambda>n. n \<noteq> []) (map Name_Event (Events marker))))])]
            else [])"
proof -
  note a = linkMedia_parsed[OF assms, of env marker rest tr]
  have b: "linkOne env marker oid tr =
           (if Name marker = [] \<and> list_all (\<lambda>t. Name_Tag t = []) (Tags marker) \<and>
               list_all (\<lambda>e. Name_Event e = []) (Events marker)
            then (None, tr)
            else
              (case UpdateOne env tr MEDIA_COLLECTION (mediaFilter oid marker)
                      (M [(''$addToSet'', M (updateDoc marker))]) of
                 Inl err \<Rightarrow>
                   (Some (Errorf ''failed to update media with marker data'' err),
                    tr @ [OpUpdateOne MEDIA_COLLECTION (mediaFilter oid marker)
                            (M [(''$addToSet'', M (updateDoc marker))])])
               | Inr matched \<Rightarrow>
                   (None,
                    tr @ [OpUpdateOne MEDIA_COLLECTION (mediaFilter oid marker)
                            (M [(''$addToSet'', M (updateDoc marker))])])))"
    using updateDoc_empty[of marker] by (simp add: linkOne_def Let_def)
  have c: "UpdateOne env tr MEDIA_COLLECTION (mediaFilter oid marker)
            (M [(''$addToSet'', M (updateDoc marker))]) = Inr 0 \<longrightarrow>
          fst (linkOne env marker oid tr) = None"
    by (simp add: linkOne_def Let_def)
  have f: "mediaFilter oid marker =
           M [(''_id'', ObjectId oid),
              (''startTimestamp'', M [(''$lte'', Int64 (StartTimestamp marker))]),
              (''endTimestamp'', M [(''$gte'', Int64 (StartTimestamp marker))])]"
    by (simp add: mediaFilter_def)
  note m = matchesFilter_mediaFilter[of oid marker d]
  have u: "updateDoc marker =
           (if Name marker \<noteq> [] then [(''markerNames'', M [(''$each'', Strings [Name marker])])]
            else []) @
           (if filter (\<lambda>n. n \<noteq> []) (map Name_Tag (Tags marker)) \<noteq> [] then
              [(''tagNames'',
                M [(''$each'', Strings (filter (\<lambda>n. n \<noteq> []) (map Name_Tag (Tags marker))))])]
            else []) @
           (if filter (\<lambda>n. n \<noteq> []) (map Name_Event (Events marker)) \<noteq> [] then
              [(''eventNames'',
                M [(''$each'', Strings (filter (\<lambda>n. n \<noteq> []) (map Name_Event (Events marker))))])]
            else [])"
    by (simp add: updateDoc_def markerNames_def tagNames_eq eventNames_eq
          del: filter_map length_filter_map)
  show ?thesis using a b c f m u by blast
qed

theorem media_linker_witness:
  "linkMedia okEnv alert [goodMediaId] [] =
     (None,
      [OpUpdateOne MEDIA_COLLECTION
         (M [(''_id'', ObjectId goodObjectId),
             (''startTimestamp'', M [(''$lte'', Int64 100)]),
             (''endTimestamp'', M [(''$gte'', Int64 100)])])
         (M [(''$addToSet'',
              M [(''markerNames'', M [(''$each'', Strings [''Alert''])]),
                 (''tagNames'', M [(''$each'', Strings [''high-priority'', ''high-priority''])]),
                 (''eventNames'', M [(''$each'', Strings [''door''])])])])]) \<and>
   linkMedia okEnv blank [goodMediaId] [] = (None, [])"
proof -
  note g = media_linker[OF nonempty_ids(1) parse_good]
  have n: "Name alert = ''Alert''" "StartTimestamp alert = 100"
    "filter (\<lambda>n. n \<noteq> []) (map Name_Tag (Tags alert)) = [''high-priority'', ''high-priority'']"
    "filter (\<lambda>n. n \<noteq> []) (map Name_Event (Events alert)) = [''door'']"
    "list_all (\<lambda>t. Name_Tag t = []) (Tags alert) = False"
    by (simp_all add: alert_def)
  have k: "Name blank = []" "list_all (\<lambda>t. Name_Tag t = []) (Tags blank)"
    "list_all (\<lambda>e. Name_Event e = []) (Events blank)"
    by (simp_all add: blank_def)
  have u: "updateDoc alert =
     [(''markerNames'', M [(''$each'', Strings [''Alert''])]),
      (''tagNames'', M [(''$each'', Strings [''high-priority'', ''high-priority''])]),
      (''eventNames'', M [(''$each'', Strings [''door''])])]"
    using g[where marker = alert] by (simp add: n)
  have f: "mediaFilter goodObjectId alert =
     M [(''_id'', ObjectId goodObjectId),
        (''startTimestamp'', M [(''$lte'', Int64 100)]),
        (''endTimestamp'', M [(''$gte'', Int64 100)])]"
    using g[where marker = alert] by (simp add: n)
  have "linkOne okEnv alert goodObjectId [] =
     (None, [OpUpdateOne MEDIA_COLLECTION (mediaFilter goodObjectId alert)
               (M [(''$addToSet'', M (updateDoc alert))])])"
    using g[where marker = alert and env = okEnv and tr = "[]"] by (simp add: n okEnv_fields)
  moreover have "linkOne okEnv blank goodObjectId [] = (None, [])"
    using g[where marker = blank and env = okEnv and tr = "[]"] by (simp add: k)
  ultimately show ?thesis
    using g[where marker = alert and env = okEnv and tr = "[]" and rest = "[]"]
          g[where marker = blank and env = okEnv and tr = "[]" and rest = "[]"]
    by (simp add: u f)
qed

text \<open>
  In \<^verbatim>\<open>AddMarkerToMongodb\<close> empty identifiers are skipped: dropping them from the list
  changes neither the result nor the writes. If an identifier is non-empty and does not
  parse, the call with any identifiers after it behaves as the call without them and
  returns an error; and if the call with the identifiers before it succeeds with marker
  \<open>r\<close> and writes \<open>tr\<close>, the call returns \<open>r\<close> with the invalid-reference error wrapping
  the parse error, and exactly the writes \<open>tr\<close>.
\<close>

lemma malformed_media_id:
  assumes "bad \<noteq> []" and "ObjectIDFromHex bad = Inl err"
  shows "AddMarkerToMongodb env m (filter (\<lambda>s. s \<noteq> []) ids) = AddMarkerToMongodb env m ids \<and>
         AddMarkerToMongodb env m (pre @ bad # post) = AddMarkerToMongodb env m (pre @ [bad]) \<and>
         snd (fst (AddMarkerToMongodb env m (pre @ bad # post))) \<noteq> None \<and>
         (AddMarkerToMongodb env m pre = ((r, None), tr) \<longrightarrow>
            AddMarkerToMongodb env m (pre @ bad # post) =
              ((r, Some (Errorf ''invalid mediaId format'' err)), tr))"
proof -
  have a: "AddMarkerToMongodb env m (filter (\<lambda>s. s \<noteq> []) ids) = AddMarkerToMongodb env m ids"
    by (simp only: AddMarkerToMongodb_def linkMedia_filter)
  have b: "AddMarkerToMongodb env m (pre @ bad # post) = AddMarkerToMongodb env m (pre @ [bad])"
    by (simp only: AddMarkerToMongodb_def linkMedia_bad[OF assms])
  have c: "snd (fst (AddMarkerToMongodb env m (pre @ bad # post))) \<noteq> None"
    by (rule AddMarker_link_fails) (rule linkMedia_bad_fails[OF assms])
  have d: "AddMarkerToMongodb env m (pre @ bad # post) =
              ((r, Some (Errorf ''invalid mediaId format'' err)), tr)"
    if run: "AddMarkerToMongodb env m pre = ((r, None), tr)"
  proof -
    from AddMarker_success[OF run] obtain oid tr1 where
      ins: "InsertOne env [] MARKERS_COLLECTION (m\<lparr>Id_Marker := NewObjectID env\<rparr>) = Inr (IdObject oid)"
      and r: "r = m\<lparr>Id_Marker := oid\<rparr>"
      and rs: "runStages (optionStages env r)
                 [OpInsertOne MARKERS_COLLECTION (m\<lparr>Id_Marker := NewObjectID env\<rparr>)] = (None, tr1)"
      and lm: "linkMedia env r pre tr1 = (None, tr)"
      by blast
    have "linkMedia env r (pre @ bad # post) tr1 =
            (Some (Errorf ''invalid mediaId format'' err), tr)"
      using linkMedia_bad[OF assms, of env r pre post tr1] lm by simp
    then show ?thesis
      using AddMarker_inserted[OF ins, of "pre @ bad # post"] rs r by simp
  qed
  show ?thesis using a b c d by blast
qed

text \<open>
  C9. \<^verbatim>\<open>Create\<close> takes no media identifier, so no list of identifiers can make it fail:
  for the marker \<open>alert\<close> it succeeds and issues no media update, whatever the caller
  meant to link. \<^verbatim>\<open>AddMarkerToMongodb\<close>, given a well-formed identifier, an empty one,
  a malformed one and a further well-formed one, returns the invalid-reference error
  after exactly the one update for the first identifier.
\<close>

theorem Create_rejects_no_media_id:
  "snd (fst (Create okEnv alert)) = None \<and>
   filter isUpdateOne (snd (Create okEnv alert)) = [] \<and>
   AddMarkerToMongodb okEnv alert [goodMediaId, [], badMediaId, goodMediaId] =
     ((alert\<lparr>Id_Marker := [1, 2, 3, 4, 5, 6, 7, 8, 9, 10, 11, 12]\<rparr>,
       Some (Errorf ''invalid mediaId format'' InvalidHex)),
      snd (AddMarkerToMongodb okEnv alert [goodMediaId])) \<and>
   filter isUpdateOne (snd (AddMarkerToMongodb okEnv alert [goodMediaId])) =
     [OpUpdateOne MEDIA_COLLECTION (mediaFilter goodObjectId alert)
        (M [(''$addToSet'', M (updateDoc alert))])]"
proof -
  note t = malformed_media_id[OF nonempty_ids(2) parse_bad, where env = okEnv and m = alert]
  have "AddMarkerToMongodb okEnv alert (filter (\<lambda>s. s \<noteq> []) [goodMediaId, []]) =
          AddMarkerToMongodb okEnv alert [goodMediaId, []]"
    using t[where ids = "[goodMediaId, []]"] by blast
  then have "AddMarkerToMongodb okEnv alert [goodMediaId, []] =
          AddMarkerToMongodb okEnv alert [goodMediaId]"
    by (simp add: nonempty_ids)
  then have pre: "AddMarkerToMongodb okEnv alert [goodMediaId, []] =
     ((alert\<lparr>Id_Marker := [1, 2, 3, 4, 5, 6, 7, 8, 9, 10, 11, 12]\<rparr>, None),
      snd (AddMarkerToMongodb okEnv alert [goodMediaId]))"
    by (simp add: AddMarker_okEnv_good)
  have "AddMarkerToMongodb okEnv alert ([goodMediaId, []] @ badMediaId # [goodMediaId]) =
     ((alert\<lparr>Id_Marker := [1, 2, 3, 4, 5, 6, 7, 8, 9, 10, 11, 12]\<rparr>,
       Some (Errorf ''invalid mediaId format'' InvalidHex)),
      snd (AddMarkerToMongodb okEnv alert [goodMediaId]))"
    using t[where pre = "[goodMediaId, []]" and post = "[goodMediaId]"
              and r = "alert\<lparr>Id_Marker := [1, 2, 3, 4, 5, 6, 7, 8, 9, 10, 11, 12]\<rparr>"
              and tr = "snd (AddMarkerToMongodb okEnv alert [goodMediaId])"] pre
    by blast
  then have a: "AddMarkerToMongodb okEnv alert [goodMediaId, [], badMediaId, goodMediaId] =
     ((alert\<lparr>Id_Marker := [1, 2, 3, 4, 5, 6, 7, 8, 9, 10, 11, 12]\<rparr>,
       Some (Errorf ''invalid mediaId format'' InvalidHex)),
      snd (AddMarkerToMongodb okEnv alert [goodMediaId]))"
    by simp
  have b: "filter isUpdateOne (snd (AddMarkerToMongodb okEnv alert [goodMediaId])) =
     [OpUpdateOne MEDIA_COLLECTION (mediaFilter goodObjectId alert)
        (M [(''$addToSet'', M (updateDoc alert))])]"
    by (simp add: AddMarker_okEnv_good stageOps_def bulkOps_def
        insertOps_def batches_alert mediaOps_def updateDoc_alert)
  have c: "snd (fst (Create okEnv alert)) = None"
    "filter isUpdateOne (snd (Create okEnv alert)) = []"
    by (simp_all add: Create_okEnv[OF Name_alert] stageOps_def bulkOps_def insertOps_def
          batches_alert)
  show ?thesis using a b c by (intro conjI)
qed

end
